theory Spec2Isabelle
  imports Complex_Main
begin

section \<open>JavaScript values and strings\<close>

text \<open>
  The order exporter is a JavaScript class (\<open>WalmartOrderExporter\<close> in
  \<open>content/content.js\<close>).  Strings are modelled as \<^typ>\<open>string\<close>; values whose
  type the code does not fix (fields read from parsed JSON) are modelled by \<open>jsval\<close>.
  Numbers are the rationals and \<open>NaN\<close>; rounding to a double and the infinities are
  not represented, and what the host computes on floating-point numbers (printing,
  \<open>toFixed\<close>, \<open>parseFloat\<close>) is a parameter, the record \<open>host\<close>.
  An object is the association list of its own properties (keys unique).
\<close>

datatype jsval =
    JUndefined
  | JNull
  | JBool bool
  | JNum rat
  | JNaN
  | JStr string
  | JArr "jsval list"
  | JObj "(string \<times> jsval) list"

definition dquote :: char where
  "dquote = CHR 0x22"

definition newline :: char where
  "newline = CHR 0x0A"

text \<open>JavaScript truthiness: \<open>undefined\<close>, \<open>null\<close>, \<open>false\<close>, \<open>0\<close> and \<open>''\<close> are falsy.\<close>

fun truthy :: "jsval \<Rightarrow> bool" where
  "truthy JUndefined = False"
| "truthy JNull = False"
| "truthy (JBool b) = b"
| "truthy (JNum q) = (q \<noteq> 0)"
| "truthy JNaN = False"
| "truthy (JStr s) = (s \<noteq> [])"
| "truthy (JArr xs) = True"
| "truthy (JObj kvs) = True"

text \<open>\<open>a || b\<close>\<close>

definition jsor :: "jsval \<Rightarrow> jsval \<Rightarrow> jsval" where
  "jsor a b = (if truthy a then a else b)"

text \<open>\<open>Array.prototype.join\<close> on strings.\<close>

fun join :: "string \<Rightarrow> string list \<Rightarrow> string" where
  "join sep [] = []"
| "join sep [x] = x"
| "join sep (x # y # ys) = x @ sep @ join sep (y # ys)"

fun digits :: "nat \<Rightarrow> string" where
  "digits n = (if n < 10 then [''0123456789'' ! n]
               else digits (n div 10) @ [''0123456789'' ! (n mod 10)])"

declare digits.simps [simp del]

text \<open>
  What the host computes on floating-point numbers: \<open>numFrac\<close> prints a number that
  is not an integer, \<open>toFixed2\<close> is \<open>toFixed(2)\<close>, \<open>parseFloat_js\<close> is
  \<open>parseFloat\<close> and \<open>strToNumber\<close> the conversion of a string to a number (both
  return a \<open>JNum\<close> or \<open>JNaN\<close>).
\<close>

record host =
  numFrac :: "rat \<Rightarrow> string"
  toFixed2 :: "rat \<Rightarrow> string"
  parseFloat_js :: "string \<Rightarrow> jsval"
  strToNumber :: "string \<Rightarrow> jsval"

text \<open>
  \<open>Number.prototype.toString\<close>: an integer prints as its decimal digits (below
  \<open>10^21\<close>); the printing of a fraction is the host's.
\<close>

definition numToString :: "host \<Rightarrow> rat \<Rightarrow> string" where
  "numToString h q =
     (if q = of_int \<lfloor>q\<rfloor>
      then (if q < 0 then ''-'' @ digits (nat (- \<lfloor>q\<rfloor>)) else digits (nat \<lfloor>q\<rfloor>))
      else numFrac h q)"

text \<open>
  \<open>String(value)\<close>.  An array prints its elements joined by commas, \<open>null\<close> and
  \<open>undefined\<close> elements as the empty string; a plain object prints as
  \<open>[object Object]\<close>.
\<close>

fun String_js :: "host \<Rightarrow> jsval \<Rightarrow> string" where
  "String_js h JUndefined = ''undefined''"
| "String_js h JNull = ''null''"
| "String_js h (JBool b) = (if b then ''true'' else ''false'')"
| "String_js h (JNum q) = numToString h q"
| "String_js h JNaN = ''NaN''"
| "String_js h (JStr s) = s"
| "String_js h (JArr xs) =
     join '','' (map (\<lambda>x. if x = JUndefined \<or> x = JNull then [] else String_js h x) xs)"
| "String_js h (JObj kvs) = ''[object Object]''"

text \<open>The string an array element contributes to \<open>join\<close>.\<close>

definition joinElem :: "host \<Rightarrow> jsval \<Rightarrow> string" where
  "joinElem h v = (if v = JUndefined \<or> v = JNull then [] else String_js h v)"

section \<open>The data model\<close>

record Item =
  name :: jsval
  quantity :: jsval
  price :: jsval
  priceValue :: jsval

record StoreLocation =
  storeName :: string
  storeAddress :: string

text \<open>
  An order record.  \<open>orderNumber\<close> is \<open>JUndefined\<close> in the records that are built
  without that property; \<open>error\<close> is set only by the failure path of
  \<open>fetchOrderDetails\<close>.
\<close>

record Order =
  orderId :: string
  orderNumber :: jsval
  orderType :: string
  orderDate :: string
  status :: jsval
  items :: "Item list"
  subtotal :: jsval
  tax :: jsval
  total :: jsval
  associateDiscount :: jsval
  driverTip :: jsval
  deliveryFee :: jsval
  expressFee :: jsval
  storeLocation :: "StoreLocation option"
  error :: "string option"

section \<open>CSV serialisation\<close>

text \<open>\<open>str.replace(/"/g, '""')\<close>\<close>

definition doubleQuotes :: "string \<Rightarrow> string" where
  "doubleQuotes str = concat (map (\<lambda>c. if c = dquote then [dquote, dquote] else [c]) str)"

text \<open>\<open>str.includes(',') || str.includes('"') || str.includes('\n')\<close>\<close>

definition needsQuoting :: "string \<Rightarrow> bool" where
  "needsQuoting str = (CHR '','' \<in> set str \<or> dquote \<in> set str \<or> newline \<in> set str)"

definition escapeCSV :: "host \<Rightarrow> jsval \<Rightarrow> string" where
  "escapeCSV h v =
     (if v = JNull \<or> v = JUndefined then []
      else let str = String_js h v in
        if needsQuoting str then [dquote] @ doubleQuotes str @ [dquote] else str)"

text \<open>
  Reading an escaped field back, as the specification words it: strip the outer quotes
  and collapse each doubled quote.  An unquoted field is read as it is.
\<close>

fun collapseQuotes :: "string \<Rightarrow> string" where
  "collapseQuotes (a # b # cs) =
     (if a = dquote \<and> b = dquote then dquote # collapseQuotes cs
      else a # collapseQuotes (b # cs))"
| "collapseQuotes cs = cs"

definition parseField :: "string \<Rightarrow> string" where
  "parseField f =
     (if 2 \<le> length f \<and> hd f = dquote \<and> last f = dquote
      then collapseQuotes (butlast (tl f)) else f)"

definition formatStoreLocation :: "StoreLocation option \<Rightarrow> string" where
  "formatStoreLocation sl =
     (case sl of
        None \<Rightarrow> []
      | Some l \<Rightarrow>
          join '' - '' ((if storeName l \<noteq> [] then [storeName l] else [])
                       @ (if storeAddress l \<noteq> [] then [storeAddress l] else [])))"

definition detailedHeader :: "string list" where
  "detailedHeader =
     [''Order Number'', ''Order Date'', ''Status'', ''Item Name'', ''Item Price'', ''Quantity'',
      ''Subtotal'', ''Tax'', ''Order Total'', ''Order Type'', ''Associate Discount'',
      ''Driver Tip'', ''Delivery Fee'', ''Express Fee'', ''Store Location'']"

definition summaryHeader :: "string list" where
  "summaryHeader =
     [''Order Number'', ''Order Date'', ''Status'', ''Item Count'',
      ''Subtotal'', ''Tax'', ''Order Total'', ''Order Type'', ''Associate Discount'',
      ''Driver Tip'', ''Delivery Fee'', ''Express Fee'', ''Store Location'']"

text \<open>\<open>order.orderType === 'store' ? 'Store' : 'Online'\<close>\<close>

definition orderTypeLabel :: "Order \<Rightarrow> string" where
  "orderTypeLabel order = (if orderType order = ''store'' then ''Store'' else ''Online'')"

text \<open>The columns that close every data row, from \<open>Subtotal\<close> to \<open>Store Location\<close>.\<close>

definition orderTailFields :: "host \<Rightarrow> Order \<Rightarrow> string list" where
  "orderTailFields h order =
     [escapeCSV h (subtotal order),
      escapeCSV h (tax order),
      escapeCSV h (total order),
      escapeCSV h (JStr (orderTypeLabel order)),
      escapeCSV h (jsor (associateDiscount order) (JStr [])),
      escapeCSV h (jsor (driverTip order) (JStr [])),
      escapeCSV h (jsor (deliveryFee order) (JStr [])),
      escapeCSV h (jsor (expressFee order) (JStr [])),
      escapeCSV h (JStr (formatStoreLocation (storeLocation order)))]"

text \<open>The three columns that open every data row.\<close>

definition orderHeadFields :: "host \<Rightarrow> Order \<Rightarrow> string list" where
  "orderHeadFields h order =
     [escapeCSV h (jsor (orderNumber order) (JStr (orderId order))),
      escapeCSV h (JStr (orderDate order)),
      escapeCSV h (status order)]"

text \<open>The array of a row of the detailed layout for one item of an order.\<close>

definition itemRowFields :: "host \<Rightarrow> Order \<Rightarrow> Item \<Rightarrow> string list" where
  "itemRowFields h order item =
     orderHeadFields h order
     @ [escapeCSV h (name item), escapeCSV h (price item), joinElem h (quantity item)]
     @ orderTailFields h order"

text \<open>The array of the row of an order with no items parsed.\<close>

definition noItemsRowFields :: "host \<Rightarrow> Order \<Rightarrow> string list" where
  "noItemsRowFields h order =
     orderHeadFields h order @ [''No items found'', [], []] @ orderTailFields h order"

text \<open>The arrays of the rows one order contributes to the detailed layout.\<close>

definition detailedRowFields :: "host \<Rightarrow> Order \<Rightarrow> string list list" where
  "detailedRowFields h order =
     (if 0 < length (items order) then map (itemRowFields h order) (items order)
      else [noItemsRowFields h order])"

text \<open>The array of the row of an order in the summary layout.\<close>

definition summaryRowFields :: "host \<Rightarrow> Order \<Rightarrow> string list" where
  "summaryRowFields h order =
     orderHeadFields h order @ [digits (length (items order))] @ orderTailFields h order"

text \<open>The \<open>rows\<close> array of \<open>generateCSV\<close>, each row an array of fields not yet joined.\<close>

definition csvRowFields :: "host \<Rightarrow> Order list \<Rightarrow> bool \<Rightarrow> string list list" where
  "csvRowFields h orders includeItems =
     (if includeItems then detailedHeader # concat (map (detailedRowFields h) orders)
      else summaryHeader # map (summaryRowFields h) orders)"

text \<open>The \<open>rows\<close> array of \<open>generateCSV\<close>.\<close>

definition csvRows :: "host \<Rightarrow> Order list \<Rightarrow> bool \<Rightarrow> string list" where
  "csvRows h orders includeItems = map (join '','') (csvRowFields h orders includeItems)"

definition generateCSV :: "host \<Rightarrow> Order list \<Rightarrow> bool \<Rightarrow> string" where
  "generateCSV h orders includeItems = join [newline] (csvRows h orders includeItems)"

section \<open>Strings and the regular expressions of the extractors\<close>

text \<open>
  The character classes of the regular expressions, on the characters a \<^typ>\<open>char\<close>
  holds: \<open>\d\<close>, \<open>\s\<close> (the ASCII white space), and the folding of the \<open>i\<close> flag on
  the ASCII letters.
\<close>

definition isDigit :: "char \<Rightarrow> bool" where
  "isDigit c = (c \<in> set ''0123456789'')"

definition isSpace :: "char \<Rightarrow> bool" where
  "isSpace c = (c \<in> set [CHR 0x20, CHR 0x09, CHR 0x0A, CHR 0x0B, CHR 0x0C, CHR 0x0D])"

text \<open>The letter of \<open>ls\<close> at the position of \<open>c\<close> in \<open>us\<close>, or \<open>c\<close> itself.\<close>

fun translate :: "string \<Rightarrow> string \<Rightarrow> char \<Rightarrow> char" where
  "translate [] ls c = c"
| "translate us [] c = c"
| "translate (u # us) (l # ls) c = (if c = u then l else translate us ls c)"

definition lowerChar :: "char \<Rightarrow> char" where
  "lowerChar c = translate ''ABCDEFGHIJKLMNOPQRSTUVWXYZ'' ''abcdefghijklmnopqrstuvwxyz'' c"

definition lowerStr :: "string \<Rightarrow> string" where
  "lowerStr s = map lowerChar s"

text \<open>\<open>s.startsWith(p)\<close>\<close>

fun startsWith :: "string \<Rightarrow> string \<Rightarrow> bool" where
  "startsWith s [] = True"
| "startsWith [] (p # ps) = False"
| "startsWith (c # cs) (p # ps) = (if c = p then startsWith cs ps else False)"

text \<open>\<open>/^p/i.test(s)\<close> for a literal \<open>p\<close>\<close>

fun startsWithCI :: "string \<Rightarrow> string \<Rightarrow> bool" where
  "startsWithCI s [] = True"
| "startsWithCI [] (p # ps) = False"
| "startsWithCI (c # cs) (p # ps) =
     (if lowerChar c = lowerChar p then startsWithCI cs ps else False)"

text \<open>\<open>s.includes(p)\<close>\<close>

fun includesStr :: "string \<Rightarrow> string \<Rightarrow> bool" where
  "includesStr [] p = (p = [])"
| "includesStr (c # cs) p = (if startsWith (c # cs) p then True else includesStr cs p)"

text \<open>\<open>/p/i.test(s)\<close> for a literal \<open>p\<close>\<close>

definition includesCI :: "string \<Rightarrow> string \<Rightarrow> bool" where
  "includesCI s p = includesStr (lowerStr s) (lowerStr p)"

text \<open>\<open>s.trim()\<close>\<close>

definition trim :: "string \<Rightarrow> string" where
  "trim s = rev (dropWhile isSpace (rev (dropWhile isSpace s)))"

text \<open>\<open>s.split('\n')\<close>\<close>

fun splitLines :: "string \<Rightarrow> string list" where
  "splitLines [] = [[]]"
| "splitLines (c # cs) =
     (if c = newline then [] # splitLines cs
      else (case splitLines cs of l # ls \<Rightarrow> (c # l) # ls | [] \<Rightarrow> [[c]]))"

text \<open>
  An unanchored regular expression is tried at each position from the left; the first
  position where it matches wins.  \<open>searchFrom\<close> returns the text before the match and
  what the match at that position returns.
\<close>

fun searchFrom :: "(string \<Rightarrow> 'a option) \<Rightarrow> string \<Rightarrow> (string \<times> 'a) option" where
  "searchFrom m [] = (case m [] of Some r \<Rightarrow> Some ([], r) | None \<Rightarrow> None)"
| "searchFrom m (c # cs) =
     (case m (c # cs) of
        Some r \<Rightarrow> Some ([], r)
      | None \<Rightarrow> (case searchFrom m cs of Some (pre, r) \<Rightarrow> Some (c # pre, r) | None \<Rightarrow> None))"

definition search :: "(string \<Rightarrow> 'a option) \<Rightarrow> string \<Rightarrow> 'a option" where
  "search m s = map_option snd (searchFrom m s)"

text \<open>\<open>parseInt\<close> on a string of decimal digits.\<close>

definition digitVal :: "char \<Rightarrow> nat" where
  "digitVal c =
     (case map_of (zip ''0123456789'' [0, 1, 2, 3, 4, 5, 6, 7, 8, 9]) c of
        Some d \<Rightarrow> d
      | None \<Rightarrow> 0)"

definition parseInt :: "string \<Rightarrow> nat" where
  "parseInt ds = foldl (\<lambda>a c. 10 * a + digitVal c) 0 ds"

text \<open>
  \<open>/Qty\s*(\d+)/i\<close> at one position; the result is group 1.  The classes that follow
  each other are disjoint, so the greedy match is the only one.
\<close>

definition qtyAt :: "string \<Rightarrow> string option" where
  "qtyAt s =
     (if startsWithCI s ''Qty''
      then (let ds = takeWhile isDigit (dropWhile isSpace (drop 3 s))
            in if ds = [] then None else Some ds)
      else None)"

definition matchQty :: "string \<Rightarrow> string option" where
  "matchQty text = search qtyAt text"

text \<open>\<open>/\$(\d+\.\d{2})/\<close> at one position; the result is group 1.\<close>

definition priceAt :: "string \<Rightarrow> string option" where
  "priceAt s =
     (case s of
        [] \<Rightarrow> None
      | c # r \<Rightarrow>
          if c = CHR ''$''
          then (if takeWhile isDigit r \<noteq> []
                then (case dropWhile isDigit r of
                        d # a # b # rest \<Rightarrow>
                          if d = CHR ''.'' \<and> isDigit a \<and> isDigit b
                          then Some (takeWhile isDigit r @ [d, a, b]) else None
                      | _ \<Rightarrow> None)
                else None)
          else None)"

definition matchPrice :: "string \<Rightarrow> string option" where
  "matchPrice text = search priceAt text"

text \<open>\<open>/,\s*quantity\s+(\d+)$/i\<close> at one position; the result is group 1.\<close>

definition quantitySuffixAt :: "string \<Rightarrow> string option" where
  "quantitySuffixAt s =
     (case s of
        [] \<Rightarrow> None
      | c # r \<Rightarrow>
          if c = CHR '',''
          then (let r1 = dropWhile isSpace r;
                    r2 = drop 8 r1;
                    r3 = dropWhile isSpace r2;
                    ds = takeWhile isDigit r3
                in if startsWithCI r1 ''quantity'' \<and> takeWhile isSpace r2 \<noteq> []
                      \<and> ds \<noteq> [] \<and> dropWhile isDigit r3 = []
                   then Some ds else None)
          else None)"

text \<open>
  \<open>\s+\$(\d+\.\d{2})(?:\s*(?:Qty\s*)?(\d+))?\<close> at one position: the part of the
  receipt-line expression after its first group.  The result is group 2 and group 3.
\<close>

definition receiptTailAt :: "string \<Rightarrow> (string \<times> string option) option" where
  "receiptTailAt r =
     (if takeWhile isSpace r = [] then None
      else (case priceAt (dropWhile isSpace r) of
              None \<Rightarrow> None
            | Some p \<Rightarrow>
                (let r2 = drop (Suc (length p)) (dropWhile isSpace r);
                     r3 = dropWhile isSpace r2;
                     r4 = (if startsWith r3 ''Qty'' then dropWhile isSpace (drop 3 r3) else r3);
                     ds = takeWhile isDigit r4
                 in Some (p, if ds = [] then None else Some ds))))"

definition isLineTerminator :: "char \<Rightarrow> bool" where
  "isLineTerminator c = (c = newline \<or> c = CHR 0x0D)"

text \<open>
  \<open>/^(.{10,80})\s+\$(\d+\.\d{2})(?:\s*(?:Qty\s*)?(\d+))?/\<close> on a line: group 1 is
  greedy, so the longest prefix of 10 to 80 characters after which the rest matches is
  taken.  The result is the groups 1, 2 and 3.
\<close>

definition receiptLine :: "string \<Rightarrow> (string \<times> string \<times> string option) option" where
  "receiptLine line =
     (let n = length (takeWhile (\<lambda>c. \<not> isLineTerminator c) line)
      in case find (\<lambda>k. receiptTailAt (drop k line) \<noteq> None) (rev [10 ..< Suc (min 80 n)]) of
           None \<Rightarrow> None
         | Some k \<Rightarrow>
             (case receiptTailAt (drop k line) of
                None \<Rightarrow> None
              | Some (p, q) \<Rightarrow> Some (take k line, p, q)))"

subsection \<open>The product-name filter\<close>

text \<open>
  The patterns of \<open>isValidProductName\<close>: all but three are \<open>/^literal/i\<close>.
  \<open>ExpressDollar\<close> is \<open>/^Express\s*\$/i\<close>, \<open>CardBrand\<close> is
  \<open>/^VISA|MASTERCARD|AMEX|DISCOVER/i\<close> (only \<open>VISA\<close> is anchored) and \<open>CountItems\<close>
  is \<open>/^\d+\s+items?$/i\<close>.
\<close>

datatype namePattern = StartsCI string | ExpressDollar | CardBrand | CountItems

fun matchesPattern :: "namePattern \<Rightarrow> string \<Rightarrow> bool" where
  "matchesPattern (StartsCI p) s = startsWithCI s p"
| "matchesPattern ExpressDollar s =
     (startsWithCI s ''Express''
      \<and> (case dropWhile isSpace (drop 7 s) of [] \<Rightarrow> False | c # r \<Rightarrow> c = CHR ''$''))"
| "matchesPattern CardBrand s =
     (startsWithCI s ''VISA'' \<or> includesCI s ''MASTERCARD'' \<or> includesCI s ''AMEX''
      \<or> includesCI s ''DISCOVER'')"
| "matchesPattern CountItems s =
     (if takeWhile isDigit s \<noteq> [] \<and> takeWhile isSpace (dropWhile isDigit s) \<noteq> []
      then lowerStr (dropWhile isSpace (dropWhile isDigit s)) = ''item''
           \<or> lowerStr (dropWhile isSpace (dropWhile isDigit s)) = ''items''
      else False)"

definition invalidPatterns :: "namePattern list" where
  "invalidPatterns =
     [StartsCI ''Subtotal'', StartsCI ''Total'', StartsCI ''Tax'', StartsCI ''Savings'',
      StartsCI ''Associate discount'', StartsCI ''Driver tip'', StartsCI ''Payment method'',
      StartsCI ''Delivery'', StartsCI ''Address'', StartsCI ''Order#'', StartsCI ''Complete,'',
      StartsCI ''Current,'', StartsCI ''Not complete'', StartsCI ''Placed'',
      StartsCI ''Preparing'', StartsCI ''On the way'', StartsCI ''Delivered'',
      StartsCI ''Return eligible'', StartsCI ''How can we help'', StartsCI ''Need more help'',
      StartsCI ''Start a return'', StartsCI ''Track shipment'', StartsCI ''View delivery'',
      StartsCI ''Charge history'', StartsCI ''Walmart+'', StartsCI ''Free delivery'',
      ExpressDollar, StartsCI ''Temporary hold'', StartsCI ''Your payment'',
      StartsCI ''Ending in'',
      StartsCI ''TC#'', StartsCI ''Store purchase'', StartsCI ''Purchased at'',
      StartsCI ''Receipt'', StartsCI ''Transaction'', StartsCI ''Store:'',
      StartsCI ''Walmart Supercenter'', StartsCI ''Walmart Neighborhood'',
      StartsCI ''Cash back'', StartsCI ''Change due'', StartsCI ''Tender'',
      CardBrand, CountItems]"

definition isValidProductName :: "string \<Rightarrow> bool" where
  "isValidProductName nm =
     (if nm = [] \<or> length nm < 5 \<or> length nm > 200 then False
      else \<not> list_ex (\<lambda>p. matchesPattern p nm) invalidPatterns)"

text \<open>
  The \<open>skipPatterns\<close> of the image strategy: \<open>/^Walmart/i\<close>, \<open>/^Pro Seller$/i\<close>,
  \<open>/Privacy/i\<close>, \<open>/^star/i\<close>, \<open>/rating/i\<close>, \<open>/logo/i\<close>, \<open>/icon/i\<close>, \<open>/avatar/i\<close>.
\<close>

definition skipImage :: "string \<Rightarrow> bool" where
  "skipImage nm =
     (startsWithCI nm ''Walmart'' \<or> lowerStr nm = lowerStr ''Pro Seller''
      \<or> includesCI nm ''Privacy'' \<or> startsWithCI nm ''star'' \<or> includesCI nm ''rating''
      \<or> includesCI nm ''logo'' \<or> includesCI nm ''icon'' \<or> includesCI nm ''avatar'')"

section \<open>Item extraction\<close>

text \<open>
  The extractors read the document through DOM queries.  A document is modelled by what
  these queries return: for every element a query selects, the texts the code reads
  from it and from the elements it reaches from it.
\<close>

text \<open>
  An ancestor of a product link: \<open>linePriceText\<close> is the \<open>textContent\<close> of its first
  descendant with \<open>data-testid="line-price"\<close> (\<open>None\<close> when it has none),
  \<open>innerText\<close> its \<open>innerText || ''\<close>.
\<close>

record AncestorView =
  linePriceText :: "string option"
  innerText :: string

text \<open>
  An anchor selected by \<open>a[href*="/ip/"]\<close>: its \<open>textContent\<close> and its chain of
  \<open>parentElement\<close>s, the parent first.
\<close>

record ProductLink =
  linkText :: string
  ancestors :: "AncestorView list"

text \<open>
  An anchor selected by \<open>a[data-testid], a[class*="product"], a[class*="item"]\<close>: its
  \<open>textContent\<close> and the \<open>innerText || ''\<close> of \<open>link.closest('div') || link.parentElement\<close>
  (\<open>None\<close> when there is no such element).
\<close>

record StructLink =
  structText :: string
  structContainerText :: "string option"

text \<open>
  An element selected by \<open>span, div, p\<close>: its \<open>textContent\<close> and the
  \<open>innerText || ''\<close> of its parent (\<open>None\<close> when it has no parent).
\<close>

record TextElem =
  elemText :: string
  elemParentText :: "string option"

record DomDoc =
  productLinks :: "ProductLink list"
  structLinks :: "StructLink list"
  textElems :: "TextElem list"

text \<open>\<open>price ? parseFloat(price.replace('$', '')) : 0\<close>\<close>

definition priceValueOf :: "host \<Rightarrow> string \<Rightarrow> jsval" where
  "priceValueOf h p = (if p \<noteq> [] then parseFloat_js h (remove1 (CHR ''$'') p) else JNum 0)"

definition mkItem :: "host \<Rightarrow> string \<Rightarrow> nat \<Rightarrow> string \<Rightarrow> Item" where
  "mkItem h nm q p =
     \<lparr>name = JStr nm, quantity = JNum (of_nat q), price = JStr p, priceValue = priceValueOf h p\<rparr>"

text \<open>\<open>price = `$${priceMatch[1]}`\<close> when the expression matches.\<close>

definition priceIn :: "string \<Rightarrow> string \<Rightarrow> string" where
  "priceIn text p = (case matchPrice text of Some m \<Rightarrow> ''$'' @ m | None \<Rightarrow> p)"

text \<open>\<open>quantity = parseInt(qtyMatch[1])\<close> when the expression matches.\<close>

definition qtyIn :: "string \<Rightarrow> nat \<Rightarrow> nat" where
  "qtyIn text q = (case matchQty text of Some ds \<Rightarrow> parseInt ds | None \<Rightarrow> q)"

subsection \<open>\<open>extractItemsFromDOM\<close>\<close>

text \<open>
  The loop \<open>for (let i = 0; i < 20 && container; i++)\<close> of strategy 1, with the number
  of iterations left, the container reached so far (the link itself is \<open>None\<close> here: it
  is left in the first iteration) and the ancestors not yet visited.  The result is the
  price, the quantity and the container when the loop ends.
\<close>

fun climbToLinePrice ::
  "nat \<Rightarrow> AncestorView option \<Rightarrow> AncestorView list \<Rightarrow> string \<times> nat \<times> AncestorView option"
where
  "climbToLinePrice 0 cur ancs = ([], 1, cur)"
| "climbToLinePrice (Suc n) cur [] = ([], 1, None)"
| "climbToLinePrice (Suc n) cur (a # ancs) =
     (case linePriceText a of
        Some priceText \<Rightarrow> (priceIn priceText [], qtyIn (innerText a) 1, Some a)
      | None \<Rightarrow> climbToLinePrice n (Some a) ancs)"

text \<open>The fallback after the loop: \<open>if (!price && container)\<close>.\<close>

definition priceFallback :: "string \<times> nat \<times> AncestorView option \<Rightarrow> string \<times> nat" where
  "priceFallback r =
     (case r of (p, q, container) \<Rightarrow>
        (case container of
           Some c \<Rightarrow> if p = [] then (priceIn (innerText c) p, qtyIn (innerText c) q) else (p, q)
         | None \<Rightarrow> (p, q)))"

definition strategy1Step ::
  "host \<Rightarrow> ProductLink \<Rightarrow> Item list \<times> string set \<Rightarrow> Item list \<times> string set" where
  "strategy1Step h link st =
     (case st of (acc, seen) \<Rightarrow>
        (let nm = trim (linkText link) in
         if nm \<noteq> [] \<and> length nm > 5 \<and> length nm < 300 \<and> nm \<notin> seen
         then (case priceFallback (climbToLinePrice 20 None (ancestors link)) of
                 (p, q) \<Rightarrow>
                   if isValidProductName nm
                   then (acc @ [mkItem h nm q p], insert nm seen)
                   else (acc, seen))
         else (acc, seen)))"

definition strategy2Step ::
  "host \<Rightarrow> StructLink \<Rightarrow> Item list \<times> string set \<Rightarrow> Item list \<times> string set" where
  "strategy2Step h link st =
     (case st of (acc, seen) \<Rightarrow>
        (let nm = trim (structText link) in
         if nm \<noteq> [] \<and> length nm > 10 \<and> length nm < 300 \<and> nm \<notin> seen
            \<and> isValidProductName nm
         then (case structContainerText link of
                 Some text \<Rightarrow>
                   (acc @ [mkItem h nm (qtyIn text 1) (priceIn text [])], insert nm seen)
               | None \<Rightarrow> (acc @ [mkItem h nm 1 []], insert nm seen))
         else (acc, seen)))"

definition strategy3Step ::
  "host \<Rightarrow> TextElem \<Rightarrow> Item list \<times> string set \<Rightarrow> Item list \<times> string set" where
  "strategy3Step h el st =
     (case st of (acc, seen) \<Rightarrow>
        (let text = trim (elemText el) in
         if text \<noteq> [] \<and> length text > 15 \<and> length text < 200
            \<and> \<not> includesStr text ''$'' \<and> \<not> includesStr text ''Qty''
            \<and> text \<notin> seen \<and> isValidProductName text
         then (case elemParentText el of
                 Some parentText \<Rightarrow>
                   (case matchPrice parentText of
                      Some m \<Rightarrow>
                        (acc @ [\<lparr>name = JStr text, quantity = JNum 1, price = JStr (''$'' @ m),
                                  priceValue = parseFloat_js h m\<rparr>],
                         insert text seen)
                    | None \<Rightarrow> (acc, seen))
               | None \<Rightarrow> (acc, seen))
         else (acc, seen)))"

definition extractItemsFromDOM :: "host \<Rightarrow> DomDoc \<Rightarrow> Item list" where
  "extractItemsFromDOM h doc =
     (let st1 = foldl (\<lambda>st link. strategy1Step h link st) ([], {}) (productLinks doc);
          st2 = (if fst st1 = [] then foldl (\<lambda>st link. strategy2Step h link st) st1 (structLinks doc)
                 else st1);
          st3 = (if fst st2 = [] then foldl (\<lambda>st el. strategy3Step h el st) st2 (textElems doc)
                 else st2)
      in fst st3)"

subsection \<open>\<open>extractItemsFromReceipt\<close>\<close>

text \<open>
  The loop over the ancestors of a product link: the price and the quantity are
  overwritten at each ancestor whose text matches, and the loop stops at the first
  ancestor after which a price is known.
\<close>

fun climbReceipt :: "nat \<Rightarrow> string \<Rightarrow> nat \<Rightarrow> AncestorView list \<Rightarrow> string \<times> nat" where
  "climbReceipt 0 p q ancs = (p, q)"
| "climbReceipt (Suc n) p q [] = (p, q)"
| "climbReceipt (Suc n) p q (a # ancs) =
     (if priceIn (innerText a) p \<noteq> [] then (priceIn (innerText a) p, qtyIn (innerText a) q)
      else climbReceipt n (priceIn (innerText a) p) (qtyIn (innerText a) q) ancs)"

definition receiptLinkStep ::
  "host \<Rightarrow> ProductLink \<Rightarrow> Item list \<times> string set \<Rightarrow> Item list \<times> string set" where
  "receiptLinkStep h link st =
     (case st of (acc, seen) \<Rightarrow>
        (let nm = trim (linkText link) in
         if nm \<noteq> [] \<and> length nm > 5 \<and> length nm < 300 \<and> nm \<notin> seen
            \<and> isValidProductName nm
         then (case climbReceipt 20 [] 1 (ancestors link) of
                 (p, q) \<Rightarrow> (acc @ [mkItem h nm q p], insert nm seen))
         else (acc, seen)))"

definition receiptLineStep ::
  "host \<Rightarrow> string \<Rightarrow> Item list \<times> string set \<Rightarrow> Item list \<times> string set" where
  "receiptLineStep h line st =
     (case st of (acc, seen) \<Rightarrow>
        (case receiptLine line of
           None \<Rightarrow> (acc, seen)
         | Some (g1, g2, g3) \<Rightarrow>
             (let nm = trim g1 in
              if isValidProductName nm \<and> nm \<notin> seen
              then (acc @ [\<lparr>name = JStr nm,
                             quantity = JNum (of_nat (case g3 of Some ds \<Rightarrow> parseInt ds | None \<Rightarrow> 1)),
                             price = JStr (''$'' @ g2),
                             priceValue = parseFloat_js h g2\<rparr>],
                    insert nm seen)
              else (acc, seen))))"

text \<open>
  \<open>extractItemsFromReceipt(doc, pageText)\<close>: the product links of the document, then,
  if they gave no item, the lines of the page text.
\<close>

definition extractItemsFromReceipt :: "host \<Rightarrow> ProductLink list \<Rightarrow> string \<Rightarrow> Item list" where
  "extractItemsFromReceipt h links pageText =
     (let st1 = foldl (\<lambda>st link. receiptLinkStep h link st) ([], {}) links;
          st2 = (if fst st1 = []
                 then foldl (\<lambda>st line. receiptLineStep h line st) st1 (splitLines pageText)
                 else st1)
      in fst st2)"

subsection \<open>\<open>extractItemsFromOrderContainer\<close>\<close>

text \<open>
  One image of the container, given by its \<open>alt\<close> text: the quantity suffix
  \<open>, quantity N\<close> is parsed and cut off the name.
\<close>

definition imageStep :: "string \<Rightarrow> Item list \<times> string set \<Rightarrow> Item list \<times> string set" where
  "imageStep alt st =
     (case st of (acc, seen) \<Rightarrow>
        (let nm = trim alt in
         if nm = [] \<or> length nm < 10 \<or> length nm > 300 then (acc, seen)
         else if skipImage nm then (acc, seen)
         else (case (case searchFrom quantitySuffixAt nm of
                       Some (pre, ds) \<Rightarrow> (trim pre, parseInt ds)
                     | None \<Rightarrow> (nm, 1)) of
                 (nm', q) \<Rightarrow>
                   if nm' \<notin> seen \<and> isValidProductName nm'
                   then (acc @ [\<lparr>name = JStr nm', quantity = JNum (of_nat q), price = JStr [],
                                  priceValue = JNum 0\<rparr>],
                         insert nm' seen)
                   else (acc, seen))))"

text \<open>
  The container is given by the \<open>alt\<close> texts of its \<open>img[alt]\<close> elements, in document
  order; \<open>None\<close> is a missing container.
\<close>

definition extractItemsFromOrderContainer :: "string list option \<Rightarrow> Item list" where
  "extractItemsFromOrderContainer container =
     (case container of
        None \<Rightarrow> []
      | Some alts \<Rightarrow> fst (foldl (\<lambda>st alt. imageStep alt st) ([], {}) alts))"

subsection \<open>\<open>extractItemsFromNextData\<close>\<close>

text \<open>
  Reading a property with \<open>?.\<close>: a value that is not an object with that own property
  gives \<open>undefined\<close> (none of the property names the code reads is a built-in property
  of a string, a number or an array).
\<close>

definition getProp :: "string \<Rightarrow> jsval \<Rightarrow> jsval" where
  "getProp k v =
     (case v of
        JObj kvs \<Rightarrow> (case map_of kvs k of Some x \<Rightarrow> x | None \<Rightarrow> JUndefined)
      | _ \<Rightarrow> JUndefined)"

text \<open>\<open>v?.k1?.k2 ...\<close>\<close>

definition path :: "string list \<Rightarrow> jsval \<Rightarrow> jsval" where
  "path ks v = foldl (\<lambda>a k. getProp k a) v ks"

text \<open>\<open>typeof v === 'object'\<close>, \<open>'number'\<close>, \<open>'string'\<close>\<close>

fun isObjectType :: "jsval \<Rightarrow> bool" where
  "isObjectType (JArr xs) = True"
| "isObjectType (JObj kvs) = True"
| "isObjectType JNull = True"
| "isObjectType v = False"

fun isNumberType :: "jsval \<Rightarrow> bool" where
  "isNumberType (JNum q) = True"
| "isNumberType JNaN = True"
| "isNumberType v = False"

fun isStringType :: "jsval \<Rightarrow> bool" where
  "isStringType (JStr s) = True"
| "isStringType v = False"

text \<open>A primitive value: a \<open>Set\<close> compares these by value, and objects by identity.\<close>

fun isPrimitive :: "jsval \<Rightarrow> bool" where
  "isPrimitive (JArr xs) = False"
| "isPrimitive (JObj kvs) = False"
| "isPrimitive v = True"

text \<open>
  \<open>seen.has(v)\<close>: every object the extractor looks up is met for the first time (the
  parsed JSON is a tree and each entry is visited once), so only a primitive value can
  be found in the set.
\<close>

definition seenHas :: "jsval set \<Rightarrow> jsval \<Rightarrow> bool" where
  "seenHas seen v = (isPrimitive v \<and> v \<in> seen)"

text \<open>
  The values \<open>for (const x of v)\<close> runs through: the elements of an array, the
  characters of a string; any other value is not iterable (\<open>None\<close>, a \<open>TypeError\<close>).
\<close>

definition iterate :: "jsval \<Rightarrow> jsval list option" where
  "iterate v =
     (case v of
        JArr xs \<Rightarrow> Some xs
      | JStr s \<Rightarrow> Some (map (\<lambda>c. JStr [c]) s)
      | _ \<Rightarrow> None)"

text \<open>The conversion to a number that \<open>price > 0\<close> applies to its left operand.\<close>

definition toNumber :: "host \<Rightarrow> jsval \<Rightarrow> jsval" where
  "toNumber h v =
     (case v of
        JUndefined \<Rightarrow> JNaN
      | JNull \<Rightarrow> JNum 0
      | JBool b \<Rightarrow> JNum (if b then 1 else 0)
      | JNum q \<Rightarrow> JNum q
      | JNaN \<Rightarrow> JNaN
      | JStr s \<Rightarrow> strToNumber h s
      | JArr xs \<Rightarrow> strToNumber h (String_js h (JArr xs))
      | JObj kvs \<Rightarrow> JNaN)"

definition gtZero :: "host \<Rightarrow> jsval \<Rightarrow> bool" where
  "gtZero h v = (case toNumber h v of JNum q \<Rightarrow> 0 < q | _ \<Rightarrow> False)"

text \<open>\<open>`$${price.toFixed(2)}`\<close>: a value that is not a number has no \<open>toFixed\<close> (\<open>None\<close>, a \<open>TypeError\<close>).\<close>

definition dollarFixed :: "host \<Rightarrow> jsval \<Rightarrow> string option" where
  "dollarFixed h v =
     (case v of
        JNum q \<Rightarrow> Some (''$'' @ toFixed2 h q)
      | JNaN \<Rightarrow> Some ''$NaN''
      | _ \<Rightarrow> None)"

text \<open>\<open>linePrice.replace(/[$,]/g, '')\<close>\<close>

definition stripDollarComma :: "string \<Rightarrow> string" where
  "stripDollarComma s = filter (\<lambda>c. c \<noteq> CHR ''$'' \<and> c \<noteq> CHR '','') s"

text \<open>
  The price of a line item of an order group: the pair of \<open>priceStr\<close> and \<open>price\<close>, or
  \<open>None\<close> when \<open>toFixed\<close> raises.
\<close>

definition groupItemPrice :: "host \<Rightarrow> jsval \<Rightarrow> jsval \<Rightarrow> (jsval \<times> jsval) option" where
  "groupItemPrice h lineItem productInfo =
     (let lp = getProp ''linePrice'' (getProp ''priceInfo'' lineItem);
          price1 = (if truthy lp
                    then (if isObjectType lp
                          then jsor (getProp ''value'' lp) (jsor (getProp ''amount'' lp) (JNum 0))
                          else if isNumberType lp then lp else JNum 0)
                    else JNum 0);
          priceStr = (if truthy lp \<and> isObjectType lp
                      then jsor (getProp ''displayValue'' lp) (JStr []) else JStr []);
          linePrice = jsor (getProp ''linePrice'' lineItem)
                        (jsor (getProp ''price'' lineItem) (getProp ''chargeAmount'' lineItem));
          price2 = (if \<not> truthy price1 \<and> truthy linePrice
                    then (if isNumberType linePrice then linePrice
                          else if isObjectType linePrice
                          then jsor (getProp ''value'' linePrice)
                                 (jsor (getProp ''amount'' linePrice)
                                    (jsor (getProp ''price'' linePrice) (JNum 0)))
                          else (case linePrice of
                                  JStr s \<Rightarrow> jsor (parseFloat_js h (stripDollarComma s)) (JNum 0)
                                | _ \<Rightarrow> price1))
                    else price1);
          unitPrice = jsor (getProp ''price'' productInfo)
                        (jsor (getProp ''salePrice'' productInfo) (getProp ''unitPrice'' lineItem));
          price3 = (if \<not> truthy price2 \<and> truthy unitPrice
                    then (if isNumberType unitPrice then unitPrice
                          else if isObjectType unitPrice
                          then jsor (getProp ''value'' unitPrice)
                                 (jsor (getProp ''amount'' unitPrice)
                                    (jsor (getProp ''price'' unitPrice) (JNum 0)))
                          else price2)
                    else price2)
      in if gtZero h price3 \<and> \<not> truthy priceStr
         then map_option (\<lambda>f. (JStr f, price3)) (dollarFixed h price3)
         else Some (priceStr, price3))"

text \<open>
  One line item of an order group.  \<open>Inl\<close> is an exception, caught by the \<open>try\<close> around
  the whole body: it carries the items pushed so far, which the function then returns.
  After the push the code logs \<open>name.substring(0, 40)\<close>, which raises when the name is
  not a string.
\<close>

definition groupItemStep ::
  "host \<Rightarrow> jsval \<Rightarrow> Item list \<times> jsval set \<Rightarrow> Item list + Item list \<times> jsval set" where
  "groupItemStep h lineItem st =
     (case st of (acc, seen) \<Rightarrow>
        (let productInfo = jsor (getProp ''productInfo'' lineItem)
                             (jsor (getProp ''item'' lineItem)
                                (jsor (getProp ''product'' lineItem) lineItem));
             nm = jsor (getProp ''name'' productInfo)
                    (jsor (getProp ''productName'' productInfo)
                       (jsor (getProp ''name'' lineItem)
                          (jsor (getProp ''description'' lineItem) (JStr []))))
         in if \<not> truthy nm \<or> seenHas seen nm then Inr (acc, seen)
            else (case groupItemPrice h lineItem productInfo of
                    None \<Rightarrow> Inl acc
                  | Some (priceStr, p) \<Rightarrow>
                      (let acc' = acc @ [\<lparr>name = nm,
                                           quantity = jsor (getProp ''quantity'' lineItem)
                                                        (jsor (getProp ''quantity'' productInfo) (JNum 1)),
                                           price = priceStr, priceValue = p\<rparr>]
                       in if isStringType nm then Inr (acc', insert nm seen) else Inl acc'))))"

text \<open>A loop whose body may raise: the first \<open>Inl\<close> ends it.\<close>

fun foldExc :: "('b \<Rightarrow> 's \<Rightarrow> 'e + 's) \<Rightarrow> 'b list \<Rightarrow> 's \<Rightarrow> 'e + 's" where
  "foldExc f [] st = Inr st"
| "foldExc f (x # xs) st = (case f x st of Inl e \<Rightarrow> Inl e | Inr st' \<Rightarrow> foldExc f xs st')"

text \<open>One group: \<open>group?.items || group?.lineItems || []\<close>, then its line items.\<close>

definition groupStep ::
  "host \<Rightarrow> jsval \<Rightarrow> Item list \<times> jsval set \<Rightarrow> Item list + Item list \<times> jsval set" where
  "groupStep h grp st =
     (case iterate (jsor (getProp ''items'' grp) (jsor (getProp ''lineItems'' grp) (JArr []))) of
        None \<Rightarrow> Inl (fst st)
      | Some lineItems \<Rightarrow> foldExc (groupItemStep h) lineItems st)"

text \<open>
  The loop over \<open>possibleGroupPaths\<close>: a candidate that is not an array is skipped, and
  the loop stops after the first candidate that leaves the item list non-empty.
\<close>

fun groupPathsLoop ::
  "host \<Rightarrow> jsval list \<Rightarrow> Item list \<times> jsval set \<Rightarrow> Item list + Item list \<times> jsval set" where
  "groupPathsLoop h [] st = Inr st"
| "groupPathsLoop h (orderGroups # rest) st =
     (case orderGroups of
        JArr groups \<Rightarrow>
          (case foldExc (groupStep h) groups st of
             Inl e \<Rightarrow> Inl e
           | Inr st' \<Rightarrow> if 0 < length (fst st') then Inr st' else groupPathsLoop h rest st')
      | _ \<Rightarrow> groupPathsLoop h rest st)"

definition possibleGroupPaths :: "jsval \<Rightarrow> jsval list" where
  "possibleGroupPaths pageProps =
     [path [''initialData'', ''data'', ''order'', ''groups_2101''] pageProps,
      path [''initialData'', ''data'', ''order'', ''orderGroups''] pageProps,
      path [''initialData'', ''orderGroups''] pageProps,
      path [''orderDetails'', ''orderGroups''] pageProps,
      path [''order'', ''orderGroups''] pageProps,
      path [''orderGroups''] pageProps]"

text \<open>The price of an entry of the direct item list, or \<open>None\<close> when \<open>toFixed\<close> raises.\<close>

definition directItemPrice :: "host \<Rightarrow> jsval \<Rightarrow> (jsval \<times> jsval) option" where
  "directItemPrice h it =
     (let lp = getProp ''linePrice'' (getProp ''priceInfo'' it);
          p0 = jsor (getProp ''price'' it) (getProp ''linePrice'' it);
          p = (if truthy lp then jsor (getProp ''value'' lp) (jsor (getProp ''amount'' lp) (JNum 0))
               else if truthy p0
               then (if isObjectType p0 then jsor (getProp ''value'' p0) (jsor (getProp ''amount'' p0) (JNum 0))
                     else if isNumberType p0 then p0 else JNum 0)
               else JNum 0)
      in if gtZero h p then map_option (\<lambda>f. (JStr f, p)) (dollarFixed h p)
         else Some (JStr [], p))"

definition directItemStep ::
  "host \<Rightarrow> jsval \<Rightarrow> Item list \<times> jsval set \<Rightarrow> Item list + Item list \<times> jsval set" where
  "directItemStep h it st =
     (case st of (acc, seen) \<Rightarrow>
        (let nm = jsor (getProp ''name'' (getProp ''productInfo'' it))
                    (jsor (getProp ''name'' it) (jsor (getProp ''productName'' it) (JStr [])))
         in if \<not> truthy nm \<or> seenHas seen nm then Inr (acc, seen)
            else (case directItemPrice h it of
                    None \<Rightarrow> Inl acc
                  | Some (priceStr, p) \<Rightarrow>
                      Inr (acc @ [\<lparr>name = nm, quantity = jsor (getProp ''quantity'' it) (JNum 1),
                                    price = priceStr, priceValue = p\<rparr>],
                           insert nm seen))))"

text \<open>The part after the loop over the group paths: the direct item lists.\<close>

definition directItems ::
  "host \<Rightarrow> jsval \<Rightarrow> Item list \<times> jsval set \<Rightarrow> Item list + Item list \<times> jsval set" where
  "directItems h pageProps st =
     (if fst st = []
      then (case iterate (jsor (path [''initialData'', ''data'', ''order'', ''items''] pageProps)
                            (jsor (path [''orderDetails'', ''items''] pageProps)
                               (jsor (getProp ''items'' pageProps) (JArr [])))) of
              None \<Rightarrow> Inl (fst st)
            | Some its \<Rightarrow> foldExc (directItemStep h) its st)
      else Inr st)"

definition extractItemsFromNextData :: "host \<Rightarrow> jsval \<Rightarrow> Item list" where
  "extractItemsFromNextData h nextData =
     (let pageProps = path [''props'', ''pageProps''] nextData
      in if \<not> truthy pageProps then []
         else (case groupPathsLoop h (possibleGroupPaths pageProps) ([], {}) of
                 Inl acc \<Rightarrow> acc
               | Inr st \<Rightarrow>
                   (case directItems h pageProps st of
                      Inl acc \<Rightarrow> acc
                    | Inr st' \<Rightarrow> fst st')))"

section \<open>The order list page\<close>

text \<open>
  The list page, as the queries of the collector see it.  An element selected by
  \<open>[data-testid]\<close>: its \<open>data-testid\<close>, the \<open>href\<close> of its first descendant
  \<open>a[href*="/orders/"]\<close> (\<open>None\<close> when it has none), its \<open>innerText || ''\<close> and the
  \<open>alt\<close> texts of its \<open>img[alt]\<close> descendants.
\<close>

record PageElem =
  testid :: string
  orderLinkHref :: "string option"
  elemInnerText :: string
  elemImageAlts :: "string list"

text \<open>What \<open>findOrderContainer\<close> reads of an element it walks through.\<close>

record ContainerView =
  viewTestid :: "string option"
  viewClassName :: string
  viewTagName :: string
  viewInnerText :: string
  viewImageAlts :: "string list"

text \<open>
  An anchor selected by \<open>a[href*="/orders/"][href*="/returns"]\<close>: its \<open>href\<close>, the
  anchor itself and its chain of \<open>parentElement\<close>s, the parent first.
\<close>

record ReturnLink =
  returnHref :: string
  returnSelf :: ContainerView
  returnAncestors :: "ContainerView list"

text \<open>
  The document of the list page: the elements with a \<open>data-testid\<close>, the return links,
  the \<open>href\<close>s of the anchors selected by \<open>a[href*="/orders/"]\<close>, and whether the
  button \<open>button[aria-label="Next page"]\<close> is there and not disabled.
\<close>

record ListPage =
  testidElems :: "PageElem list"
  returnLinks :: "ReturnLink list"
  orderLinks :: "string list"
  nextEnabled :: bool

text \<open>\<open>\w\<close>\<close>

definition isWordChar :: "char \<Rightarrow> bool" where
  "isWordChar c =
     (c \<in> set ''abcdefghijklmnopqrstuvwxyzABCDEFGHIJKLMNOPQRSTUVWXYZ0123456789_'')"

text \<open>\<open>/^order-\d+$/\<close>\<close>

definition isOrderTestId :: "string \<Rightarrow> bool" where
  "isOrderTestId t =
     (if startsWith t ''order-'' then drop 6 t \<noteq> [] \<and> list_all isDigit (drop 6 t) else False)"

text \<open>
  \<open>/\/orders\/(\d+)/\<close> at one position; the result is group 1.  It is also group 1 of
  \<open>/\/orders\/(\d+)(\?.*)?/\<close>, whose second group is optional.
\<close>

definition orderIdAt :: "string \<Rightarrow> string option" where
  "orderIdAt s =
     (if startsWith s ''/orders/''
      then (if takeWhile isDigit (drop 8 s) = [] then None else Some (takeWhile isDigit (drop 8 s)))
      else None)"

text \<open>\<open>/\/orders\/(\d+)\/returns/\<close> at one position; the result is group 1.\<close>

definition returnIdAt :: "string \<Rightarrow> string option" where
  "returnIdAt s =
     (if startsWith s ''/orders/''
      then (if takeWhile isDigit (drop 8 s) \<noteq> []
               \<and> startsWith (dropWhile isDigit (drop 8 s)) ''/returns''
            then Some (takeWhile isDigit (drop 8 s)) else None)
      else None)"

text \<open>
  \<open>/Arrives by\s+(\w+,\s+\w+\s+\d+)/i\<close> at one position; the result is group 1.
\<close>

definition arrivesByAt :: "string \<Rightarrow> string option" where
  "arrivesByAt s =
     (if startsWithCI s ''Arrives by''
      then (let r1 = dropWhile isSpace (drop 10 s);
                w1 = takeWhile isWordChar r1;
                r2 = dropWhile isWordChar r1;
                s2 = takeWhile isSpace (drop 1 r2);
                r3 = dropWhile isSpace (drop 1 r2);
                w2 = takeWhile isWordChar r3;
                r4 = dropWhile isWordChar r3;
                s3 = takeWhile isSpace r4;
                ds = takeWhile isDigit (dropWhile isSpace r4)
            in if takeWhile isSpace (drop 10 s) \<noteq> [] \<and> w1 \<noteq> [] \<and> startsWith r2 '',''
                  \<and> s2 \<noteq> [] \<and> w2 \<noteq> [] \<and> s3 \<noteq> [] \<and> ds \<noteq> []
               then Some (w1 @ '','' @ s2 @ w2 @ s3 @ ds) else None)
      else None)"

definition monthNames :: "string list" where
  "monthNames = [''jan'', ''feb'', ''mar'', ''apr'', ''may'', ''jun'',
                 ''jul'', ''aug'', ''sep'', ''oct'', ''nov'', ''dec'']"

text \<open>
  \<open>/(Jan|Feb|Mar|Apr|May|Jun|Jul|Aug|Sep|Oct|Nov|Dec)\s+(\d{1,2})/i\<close> at one position:
  the month as the text has it, the white space and the one or two digits.
\<close>

definition monthDayAt :: "string \<Rightarrow> (string \<times> string \<times> string) option" where
  "monthDayAt s =
     (if length s \<ge> 3 \<and> lowerStr (take 3 s) \<in> set monthNames
      then (let ws = takeWhile isSpace (drop 3 s);
                ds = take 2 (takeWhile isDigit (dropWhile isSpace (drop 3 s)))
            in if ws \<noteq> [] \<and> ds \<noteq> [] then Some (take 3 s, ws, ds) else None)
      else None)"

text \<open>\<open>/Delivered on\s+(Jan|...|Dec)\s+(\d{1,2})/i\<close> at one position: the groups 1 and 2.\<close>

definition deliveredOnAt :: "string \<Rightarrow> (string \<times> string) option" where
  "deliveredOnAt s =
     (if startsWithCI s ''Delivered on''
      then (if takeWhile isSpace (drop 12 s) \<noteq> []
            then (case monthDayAt (dropWhile isSpace (drop 12 s)) of
                    Some (m, ws, ds) \<Rightarrow> Some (m, ds)
                  | None \<Rightarrow> None)
            else None)
      else None)"

text \<open>\<open>/Order total \$([\d,]+\.\d{2})/\<close> at one position; the result is group 1.\<close>

definition orderTotalAt :: "string \<Rightarrow> string option" where
  "orderTotalAt s =
     (if startsWith s ''Order total $''
      then (let body = takeWhile (\<lambda>c. isDigit c \<or> c = CHR '','') (drop 13 s)
            in case dropWhile (\<lambda>c. isDigit c \<or> c = CHR '','') (drop 13 s) of
                 d # a # b # rest \<Rightarrow>
                   if body \<noteq> [] \<and> d = CHR ''.'' \<and> isDigit a \<and> isDigit b
                   then Some (body @ [d, a, b]) else None
               | _ \<Rightarrow> None)
      else None)"

text \<open>\<open>totalMatch ? `$${totalMatch[1]}` : ''\<close>\<close>

definition orderTotalIn :: "string \<Rightarrow> string" where
  "orderTotalIn text = (case search orderTotalAt text of Some m \<Rightarrow> ''$'' @ m | None \<Rightarrow> [])"

text \<open>
  The clock of the run: \<open>todayText\<close> is
  \<open>new Date().toLocaleDateString('en-US', {month: 'short', day: 'numeric', year: 'numeric'})\<close>,
  \<open>yearText\<close> is \<open>new Date().getFullYear()\<close> as a string and \<open>nowMs\<close> the time of
  \<open>new Date()\<close> in milliseconds.
\<close>

record Clock =
  todayText :: string
  yearText :: string
  nowMs :: int

text \<open>
  The status and the order date the primary method reads from the text of a container:
  the pair \<open>(status, orderDate)\<close>.
\<close>

definition primaryStatusDate :: "Clock \<Rightarrow> string \<Rightarrow> string \<times> string" where
  "primaryStatusDate clk text =
     (if includesStr text ''Arrives today'' then (''Arrives today'', todayText clk)
      else if includesStr text ''Arrives by''
      then ((case search arrivesByAt text of Some m \<Rightarrow> ''Arrives by '' @ m | None \<Rightarrow> ''Unknown''),
            (case search monthDayAt text of
               Some (m, ws, ds) \<Rightarrow> m @ ws @ ds @ '', '' @ yearText clk
             | None \<Rightarrow> ''Unknown''))
      else if includesStr text ''Delivered on''
      then (''Delivered'',
            (case search deliveredOnAt text of
               Some (m, ds) \<Rightarrow> m @ '' '' @ ds @ '', '' @ yearText clk
             | None \<Rightarrow> ''Unknown''))
      else if includesStr text ''Delivered''
      then (''Delivered'',
            (case search monthDayAt text of
               Some (m, ws, ds) \<Rightarrow> m @ '' '' @ ds @ '', '' @ yearText clk
             | None \<Rightarrow> ''Unknown''))
      else if includesStr text ''Preparing'' then (''Preparing'', ''Unknown'')
      else if includesStr text ''On the way'' then (''On the way'', ''Unknown'')
      else if includesStr text ''Store purchase'' then (''Store purchase'', ''Unknown'')
      else (''Unknown'', ''Unknown''))"

text \<open>The same for the return-link method, which knows fewer phrases.\<close>

definition legacyStatusDate :: "Clock \<Rightarrow> string \<Rightarrow> string \<times> string" where
  "legacyStatusDate clk text =
     (if includesStr text ''Arrives today'' then (''Arrives today'', todayText clk)
      else if includesStr text ''Arrives by''
      then ((case search arrivesByAt text of Some m \<Rightarrow> ''Arrives by '' @ m | None \<Rightarrow> ''Unknown''),
            ''Unknown'')
      else if includesStr text ''Delivered'' then (''Delivered'', ''Unknown'')
      else if includesStr text ''Store purchase'' then (''Store purchase'', ''Unknown'')
      else (''Unknown'', ''Unknown''))"

text \<open>The order record both methods push, from the text and the images of a container.\<close>

definition listOrder :: "string \<Rightarrow> string \<times> string \<Rightarrow> string \<Rightarrow> string list \<Rightarrow> Order" where
  "listOrder oid statusDate text alts =
     \<lparr>orderId = oid,
      orderNumber = JStr oid,
      orderType = (if includesStr text ''Store purchase'' \<or> includesStr text ''TC#''
                   then ''store'' else ''online''),
      orderDate = snd statusDate,
      status = JStr (fst statusDate),
      items = extractItemsFromOrderContainer (Some alts),
      subtotal = JStr [],
      tax = JStr [],
      total = JStr (orderTotalIn text),
      associateDiscount = JStr [],
      driverTip = JStr [],
      deliveryFee = JStr [],
      expressFee = JStr [],
      storeLocation = Some \<lparr>storeName = [], storeAddress = []\<rparr>,
      error = None\<rparr>"

text \<open>
  The order id of a container: group 1 of \<open>/\/orders\/(\d+)/\<close> on the \<open>href\<close> of its
  order link, \<open>None\<close> when it has no order link or the \<open>href\<close> does not match.
\<close>

definition containerOrderId :: "PageElem \<Rightarrow> string option" where
  "containerOrderId el =
     (case orderLinkHref el of None \<Rightarrow> None | Some href \<Rightarrow> search orderIdAt href)"

text \<open>The order the primary method builds from a container.\<close>

definition containerOrder :: "Clock \<Rightarrow> string \<Rightarrow> PageElem \<Rightarrow> Order" where
  "containerOrder clk oid el =
     listOrder oid (primaryStatusDate clk (elemInnerText el)) (elemInnerText el) (elemImageAlts el)"

text \<open>
  One container of the primary method.  The state is the \<open>orders\<close> array and the set
  \<open>seenOrderIds\<close>.
\<close>

definition containerStep ::
  "Clock \<Rightarrow> PageElem \<Rightarrow> Order list \<times> string set \<Rightarrow> Order list \<times> string set" where
  "containerStep clk el st =
     (case st of (acc, seen) \<Rightarrow>
        (case containerOrderId el of
           None \<Rightarrow> (acc, seen)
         | Some oid \<Rightarrow>
             if oid \<in> seen then (acc, seen)
             else (acc @ [containerOrder clk oid el], insert oid seen)))"

text \<open>
  \<open>findOrderContainer\<close>: the first of the nearest 15 ancestors that looks like an order
  container, else the element 6 levels up (or as far up as the chain goes).
\<close>

definition looksLikeContainer :: "ContainerView \<Rightarrow> bool" where
  "looksLikeContainer v =
     ((case viewTestid v of
         Some t \<Rightarrow> (t \<noteq> [] \<and> isOrderTestId t) \<or> includesStr t ''order''
       | None \<Rightarrow> False)
      \<or> includesStr (viewClassName v) ''order''
      \<or> (viewTagName v = ''SECTION'' \<and> includesStr (viewInnerText v) ''Order total''))"

definition findOrderContainer :: "ContainerView \<Rightarrow> ContainerView list \<Rightarrow> ContainerView" where
  "findOrderContainer self ancs =
     (case find looksLikeContainer (take 15 ancs) of
        Some v \<Rightarrow> v
      | None \<Rightarrow> (if ancs = [] then self else ancs ! (min 6 (length ancs) - 1)))"

text \<open>The order the legacy method builds from a return link.\<close>

definition returnLinkOrder :: "Clock \<Rightarrow> string \<Rightarrow> ReturnLink \<Rightarrow> Order" where
  "returnLinkOrder clk oid link =
     (let c = findOrderContainer (returnSelf link) (returnAncestors link)
      in listOrder oid (legacyStatusDate clk (viewInnerText c)) (viewInnerText c) (viewImageAlts c))"

text \<open>One return link of the legacy method.\<close>

definition returnLinkStep ::
  "Clock \<Rightarrow> ReturnLink \<Rightarrow> Order list \<times> string set \<Rightarrow> Order list \<times> string set" where
  "returnLinkStep clk link st =
     (case st of (acc, seen) \<Rightarrow>
        (case search returnIdAt (returnHref link) of
           None \<Rightarrow> (acc, seen)
         | Some oid \<Rightarrow>
             if oid \<in> seen then (acc, seen)
             else (acc @ [returnLinkOrder clk oid link], insert oid seen)))"

definition extractOrderDataFromListPage :: "Clock \<Rightarrow> ListPage \<Rightarrow> Order list" where
  "extractOrderDataFromListPage clk page =
     (let st1 = foldl (\<lambda>st el. containerStep clk el st) ([], {})
                  (filter (\<lambda>el. isOrderTestId (testid el)) (testidElems page));
          st2 = (if fst st1 = []
                 then foldl (\<lambda>st link. returnLinkStep clk link st) st1 (returnLinks page)
                 else st1)
      in fst st2)"

subsection \<open>\<open>getOrderIdsFromPage\<close>\<close>

record OrderInfo =
  infoOrderId :: string
  infoUrl :: string
  infoIsStore :: bool

text \<open>\<open>Map.prototype.set\<close>: a key that is there keeps its place.\<close>

fun mapSet :: "(string \<times> 'v) list \<Rightarrow> string \<Rightarrow> 'v \<Rightarrow> (string \<times> 'v) list" where
  "mapSet [] k v = [(k, v)]"
| "mapSet ((k', v') # m) k v = (if k' = k then (k, v) # m else (k', v') # mapSet m k v)"

definition orderLinkStep :: "string \<Rightarrow> (string \<times> OrderInfo) list \<Rightarrow> (string \<times> OrderInfo) list" where
  "orderLinkStep href m =
     (case search orderIdAt href of
        None \<Rightarrow> m
      | Some oid \<Rightarrow>
          if map_of m oid = None \<or> includesStr href ''storePurchase=true''
          then mapSet m oid \<lparr>infoOrderId = oid, infoUrl = href,
                             infoIsStore = includesStr href ''storePurchase=true''\<rparr>
          else m)"

definition getOrderIdsFromPage :: "ListPage \<Rightarrow> OrderInfo list" where
  "getOrderIdsFromPage page = map snd (foldl (\<lambda>m href. orderLinkStep href m) [] (orderLinks page))"

section \<open>Fetching order pages\<close>

text \<open>
  What the network answers to the HTML request of \<open>fetchOrderDetails\<close>: the request (or
  reading its body) fails with a message, the response is not \<open>ok\<close> and has a status,
  or there is a page.  Of the page the model keeps whether the text of its \<open>main\<close>
  element matches \<open>/TC#\s*[\d-]+/\<close> and what each of the two page parsers,
  \<open>parseStorePurchasePage\<close> and \<open>parseOrderDetailPage\<close>, does on it: the message of the
  exception it raises (\<open>Inl\<close>) or the order it returns.
\<close>

record HtmlView =
  hasTransactionCode :: bool
  storeParse :: "string + Order"
  onlineParse :: "string + Order"

datatype HtmlOutcome = NetworkError string | HttpError nat | HtmlPage HtmlView

text \<open>
  The order metadata of a detail page, as \<open>extractOrderMetaFromNextData\<close> returns it; a
  property that is not set is \<open>JUndefined\<close>.
\<close>

record OrderMeta =
  metaOrderDate :: jsval
  metaSubtotal :: jsval
  metaTax :: jsval
  metaTotal :: jsval
  metaDriverTip :: jsval
  metaAssociateDiscount :: jsval
  metaDeliveryFee :: jsval
  metaExpressFee :: jsval

text \<open>
  The world of one run of \<open>exportOrders\<close>:
  \<^item> \<open>hostOf\<close>, \<open>clock\<close>: the host's number functions and the clock;
  \<^item> \<open>parseDate\<close>: the time in milliseconds of \<open>new Date(s)\<close>, \<open>None\<close> for an invalid
    date; \<open>localeDate\<close>: \<open>new Date(v).toLocaleDateString(...)\<close>, \<open>None\<close> for an invalid date;
  \<^item> \<open>pageAt n\<close>: the document while the page counter of the run is \<open>n\<close>;
  \<^item> \<open>apiData\<close>: what \<open>fetchOrderFromAPI\<close> returns for an order id (it catches every
    failure and then returns \<open>null\<close>);
  \<^item> \<open>parseJSON\<close>: what \<open>parseOrderFromJSONData\<close> does on a JSON value and an order id,
    the message of the exception it raises or the order it returns;
  \<^item> \<open>htmlFetch\<close>: the answer to the HTML request for a URL;
  \<^item> \<open>detailData\<close>: the parsed \<open>__NEXT_DATA__\<close> of the page \<open>fetchDetailedItems\<close>
    requests, \<open>None\<close> when the request, the response, the script element or
    \<open>JSON.parse\<close> fails; \<open>orderMetaOf\<close>: what \<open>extractOrderMetaFromNextData\<close> returns;
  \<^item> \<open>sendThrows k\<close>: the message of the exception that the call number \<open>k\<close> of
    \<open>chrome.runtime.sendMessage\<close> raises, if it raises one;
  \<^item> \<open>stopAfter\<close>: the number of completed \<open>await\<close>s after which \<open>STOP_EXPORT\<close>
    has set \<open>isExporting\<close> to false, \<open>None\<close> when no stop is requested.
\<close>

record World =
  hostOf :: host
  clock :: Clock
  parseDate :: "string \<Rightarrow> int option"
  localeDate :: "jsval \<Rightarrow> string option"
  pageAt :: "nat \<Rightarrow> ListPage"
  apiData :: "string \<Rightarrow> jsval"
  parseJSON :: "jsval \<Rightarrow> string \<Rightarrow> string + Order"
  htmlFetch :: "string \<Rightarrow> HtmlOutcome"
  detailData :: "string \<Rightarrow> jsval option"
  orderMetaOf :: "jsval \<Rightarrow> OrderMeta option"
  sendThrows :: "nat \<Rightarrow> string option"
  stopAfter :: "nat option"

text \<open>The record the \<open>catch\<close> of \<open>fetchOrderDetails\<close> returns; it has no \<open>orderNumber\<close>.\<close>

definition errorOrder :: "string \<Rightarrow> bool \<Rightarrow> string \<Rightarrow> Order" where
  "errorOrder oid isStore msg =
     \<lparr>orderId = oid,
      orderNumber = JUndefined,
      orderType = (if isStore then ''store'' else ''online''),
      orderDate = ''Unknown'',
      status = JStr ''Error fetching'',
      items = [],
      subtotal = JStr [],
      tax = JStr [],
      total = JStr [],
      associateDiscount = JStr [],
      driverTip = JStr [],
      deliveryFee = JStr [],
      expressFee = JStr [],
      storeLocation = Some \<lparr>storeName = [], storeAddress = []\<rparr>,
      error = Some msg\<rparr>"

text \<open>The URL of the detail page of an order.\<close>

definition orderPageUrl :: "string \<Rightarrow> bool \<Rightarrow> string" where
  "orderPageUrl oid isStore =
     ''https://www.walmart.com/orders/'' @ oid @ (if isStore then ''?storePurchase=true'' else [])"

text \<open>\<open>orderUrl\<close>: the URL of the link, or the one built from the order id.\<close>

definition orderUrlOf :: "OrderInfo \<Rightarrow> string" where
  "orderUrlOf info =
     (if infoUrl info \<noteq> [] then infoUrl info
      else orderPageUrl (infoOrderId info) (infoIsStore info))"

text \<open>\<open>apiData && (apiData.orderDetails || apiData.lineItems || apiData.items)\<close>\<close>

definition apiUsable :: "jsval \<Rightarrow> bool" where
  "apiUsable api =
     (truthy api
      \<and> truthy (jsor (getProp ''orderDetails'' api)
                  (jsor (getProp ''lineItems'' api) (getProp ''items'' api))))"

text \<open>
  \<open>isStore || this.isStorePurchase(orderUrl, doc)\<close>: which of the two page parsers
  reads the page.
\<close>

definition pageParse :: "OrderInfo \<Rightarrow> HtmlView \<Rightarrow> string + Order" where
  "pageParse info doc =
     (if infoIsStore info \<or> includesStr (orderUrlOf info) ''storePurchase=true''
         \<or> hasTransactionCode doc
      then storeParse doc else onlineParse doc)"

text \<open>
  The body of the \<open>try\<close> of \<open>fetchOrderDetails\<close>: \<open>Inl\<close> is the message of an exception
  raised in it.  Every parser stores the order id it is given in the record it returns.
\<close>

definition fetchOrderDetailsTry :: "World \<Rightarrow> OrderInfo \<Rightarrow> string + Order" where
  "fetchOrderDetailsTry w info =
     (if apiUsable (apiData w (infoOrderId info))
      then map_sum id (\<lambda>order. order\<lparr>orderId := infoOrderId info\<rparr>)
             (parseJSON w (jsor (getProp ''orderDetails'' (apiData w (infoOrderId info)))
                             (apiData w (infoOrderId info)))
                (infoOrderId info))
      else (case htmlFetch w (orderUrlOf info) of
              NetworkError msg \<Rightarrow> Inl msg
            | HttpError code \<Rightarrow> Inl (''HTTP '' @ digits code)
            | HtmlPage doc \<Rightarrow>
                map_sum id (\<lambda>order. order\<lparr>orderId := infoOrderId info\<rparr>) (pageParse info doc)))"

definition fetchOrderDetails :: "World \<Rightarrow> OrderInfo \<Rightarrow> Order" where
  "fetchOrderDetails w info =
     (case fetchOrderDetailsTry w info of
        Inr order \<Rightarrow> order
      | Inl msg \<Rightarrow> errorOrder (infoOrderId info) (infoIsStore info) msg)"

text \<open>
  \<open>fetchDetailedItems\<close>: \<open>None\<close> is the \<open>null\<close> it returns on every failure; otherwise
  the items of the structured-data extractor and the order metadata.
\<close>

definition fetchDetailedItems :: "World \<Rightarrow> string \<Rightarrow> bool \<Rightarrow> (Item list \<times> OrderMeta option) option" where
  "fetchDetailedItems w oid isStore =
     (case detailData w (orderPageUrl oid isStore) of
        None \<Rightarrow> None
      | Some nextData \<Rightarrow>
          Some (extractItemsFromNextData (hostOf w) nextData, orderMetaOf w nextData))"

text \<open>\<open>formatDate\<close>: a string with a letter in it is taken as already readable.\<close>

definition isLetter :: "char \<Rightarrow> bool" where
  "isLetter c = (c \<in> set ''abcdefghijklmnopqrstuvwxyzABCDEFGHIJKLMNOPQRSTUVWXYZ'')"

definition formatDate :: "World \<Rightarrow> jsval \<Rightarrow> string" where
  "formatDate w v =
     (if \<not> truthy v then ''Unknown''
      else (case v of
              JStr s \<Rightarrow>
                if list_ex isLetter s then s
                else (case localeDate w v of Some d \<Rightarrow> d | None \<Rightarrow> s)
            | _ \<Rightarrow> (case localeDate w v of Some d \<Rightarrow> d | None \<Rightarrow> String_js (hostOf w) v)))"

text \<open>The update of an order from the result of \<open>fetchDetailedItems\<close>.\<close>

definition applyMeta :: "World \<Rightarrow> OrderMeta \<Rightarrow> Order \<Rightarrow> Order" where
  "applyMeta w m order =
     order\<lparr>orderDate := (if truthy (metaOrderDate m) \<and> orderDate order = ''Unknown''
                         then formatDate w (metaOrderDate m) else orderDate order),
           subtotal := (if truthy (metaSubtotal m) \<and> \<not> truthy (subtotal order)
                        then metaSubtotal m else subtotal order),
           tax := (if truthy (metaTax m) \<and> \<not> truthy (tax order) then metaTax m else tax order),
           total := (if truthy (metaTotal m) \<and> \<not> truthy (total order)
                     then metaTotal m else total order),
           driverTip := (if truthy (metaDriverTip m) then metaDriverTip m else driverTip order),
           associateDiscount := (if truthy (metaAssociateDiscount m)
                                 then metaAssociateDiscount m else associateDiscount order),
           deliveryFee := (if truthy (metaDeliveryFee m)
                           then metaDeliveryFee m else deliveryFee order),
           expressFee := (if truthy (metaExpressFee m)
                          then metaExpressFee m else expressFee order)\<rparr>"

definition applyDetails :: "World \<Rightarrow> (Item list \<times> OrderMeta option) option \<Rightarrow> Order \<Rightarrow> Order" where
  "applyDetails w fetchResult order =
     (case fetchResult of
        None \<Rightarrow> order
      | Some (detailedItems, orderMeta) \<Rightarrow>
          (let order1 = (if 0 < length detailedItems then order\<lparr>items := detailedItems\<rparr> else order)
           in case orderMeta of None \<Rightarrow> order1 | Some m \<Rightarrow> applyMeta w m order1))"

section \<open>The export run\<close>

datatype DateRange = AllDates | Days int

record Options =
  includeItems :: bool
  allPages :: bool
  dateRange :: DateRange
  orderTypeFilter :: string
  fetchItemPrices :: bool

record Progress =
  percent :: "rat option"
  label :: "string option"
  detail :: "string option"

text \<open>A request for the page or the API of one order, by the function that makes it.\<close>

datatype NetCall = OrderDetailsCall string | DetailedItemsCall string

text \<open>
  The state of a run: the accumulator \<open>this.orders\<close>, \<open>this.processedOrders\<close>, the
  number of completed \<open>await\<close>s, the progress events sent and the requests made for
  single orders.
\<close>

record RunState =
  orders :: "Order list"
  processedOrders :: nat
  ticks :: nat
  progressLog :: "Progress list"
  netLog :: "NetCall list"

text \<open>\<open>this.isExporting\<close>, which only \<open>STOP_EXPORT\<close> changes during the loop.\<close>

definition isExporting :: "World \<Rightarrow> RunState \<Rightarrow> bool" where
  "isExporting w st = (case stopAfter w of None \<Rightarrow> True | Some n \<Rightarrow> ticks st < n)"

definition awaitTick :: "RunState \<Rightarrow> RunState" where
  "awaitTick st = st\<lparr>ticks := Suc (ticks st)\<rparr>"

text \<open>\<open>sendProgress\<close>: \<open>Inl\<close> is the message of the exception the host raises.\<close>

definition sendProgress :: "World \<Rightarrow> Progress \<Rightarrow> RunState \<Rightarrow> string + RunState" where
  "sendProgress w ev st =
     (case sendThrows w (length (progressLog st)) of
        Some msg \<Rightarrow> Inl msg
      | None \<Rightarrow> Inr (st\<lparr>progressLog := progressLog st @ [ev]\<rparr>))"

definition detailOnly :: "string \<Rightarrow> Progress" where
  "detailOnly d = \<lparr>percent = None, label = None, detail = Some d\<rparr>"

text \<open>
  The fallback of a page with no order found on it: one order link after the other is
  fetched.  \<open>fetchOrderDetails\<close> returns a record also when it fails, so the \<open>catch\<close>
  around its call is never entered.
\<close>

fun fetchLoop ::
  "World \<Rightarrow> OrderInfo list \<Rightarrow> Order list \<Rightarrow> RunState \<Rightarrow> string + Order list \<times> RunState" where
  "fetchLoop w [] pageOrders st = Inr (pageOrders, st)"
| "fetchLoop w (info # rest) pageOrders st =
     (if \<not> isExporting w st then Inr (pageOrders, st)
      else (case sendProgress w (detailOnly (''Fetching order '' @ infoOrderId info @ ''...'')) st of
              Inl e \<Rightarrow> Inl e
            | Inr st1 \<Rightarrow>
                fetchLoop w rest
                  (if orderId (fetchOrderDetails w info) \<noteq> []
                   then pageOrders @ [fetchOrderDetails w info] else pageOrders)
                  (awaitTick (awaitTick
                     (st1\<lparr>netLog := netLog st1 @ [OrderDetailsCall (infoOrderId info)]\<rparr>)))))"

text \<open>
  \<open>cutoffDate\<close>: \<open>dateRange\<close> days before now, \<open>None\<close> for \<open>'all'\<close>.  A day is
  86400000 milliseconds (\<open>setDate\<close> moves the calendar day, which differs by an hour
  across a daylight-saving change).
\<close>

definition cutoffDate :: "World \<Rightarrow> Options \<Rightarrow> int option" where
  "cutoffDate w opts =
     (case dateRange opts of
        AllDates \<Rightarrow> None
      | Days n \<Rightarrow> Some (nowMs (clock w) - n * 86400000))"

text \<open>
  The date check of one order: true when the order date is known, parses, and is before
  the cutoff.  Then the order is left out and \<open>reachedCutoff\<close> is set.
\<close>

definition olderThanCutoff :: "World \<Rightarrow> int option \<Rightarrow> Order \<Rightarrow> bool" where
  "olderThanCutoff w cutoff order =
     (case cutoff of
        None \<Rightarrow> False
      | Some c \<Rightarrow>
          if orderDate order \<noteq> ''Unknown''
          then (case parseDate w (orderDate order) of Some d \<Rightarrow> d < c | None \<Rightarrow> False)
          else False)"

text \<open>The order-type filter: true when it leaves the order out.\<close>

definition filteredByType :: "Options \<Rightarrow> Order \<Rightarrow> bool" where
  "filteredByType opts order =
     (if orderTypeFilter opts \<noteq> ''all''
      then (orderTypeFilter opts = ''online'' \<and> orderType order = ''store'')
           \<or> (orderTypeFilter opts = ''store'' \<and> orderType order \<noteq> ''store'')
      else False)"

definition displayId :: "Order \<Rightarrow> string" where
  "displayId order =
     (if orderType order = ''store'' then orderId order @ '' (store)'' else orderId order)"

text \<open>
  The order as the loop body checks and pushes it: updated from the detail page when
  the item prices are asked for.
\<close>

definition checkedOrder :: "World \<Rightarrow> Options \<Rightarrow> Order \<Rightarrow> Order" where
  "checkedOrder w opts order =
     (if fetchItemPrices opts \<and> includeItems opts
      then applyDetails w (fetchDetailedItems w (orderId order) (orderType order = ''store'')) order
      else order)"

text \<open>
  The part of the loop body that fetches the item prices of an order: the state after
  it, or the message of an exception.
\<close>

definition fetchPrices :: "World \<Rightarrow> Options \<Rightarrow> Order \<Rightarrow> RunState \<Rightarrow> string + RunState" where
  "fetchPrices w opts order st =
     (if fetchItemPrices opts \<and> includeItems opts
      then (case sendProgress w
                   (detailOnly (''Fetching item prices for order '' @ displayId order @ ''...'')) st of
              Inl e \<Rightarrow> Inl e
            | Inr st1 \<Rightarrow>
                Inr (awaitTick (awaitTick
                       (st1\<lparr>netLog := netLog st1 @ [DetailedItemsCall (orderId order)]\<rparr>))))
      else Inr st)"

text \<open>
  The body of the loop over the orders of a page, for the order at index \<open>i\<close>: the new
  value of \<open>reachedCutoff\<close> and the state, or the message of an exception.
\<close>

definition processOrder ::
  "World \<Rightarrow> Options \<Rightarrow> int option \<Rightarrow> nat \<Rightarrow> nat \<Rightarrow> nat \<Rightarrow> Order \<Rightarrow> bool \<Rightarrow> RunState
   \<Rightarrow> string + bool \<times> RunState" where
  "processOrder w opts cutoff pageNum len i order reached st =
     (case sendProgress w
             \<lparr>percent = Some (of_nat (processedOrders st + i) / of_nat (max (len * pageNum) 1) * 100),
              label = None,
              detail = Some (''Processing order '' @ displayId order @ ''...'')\<rparr> st of
        Inl e \<Rightarrow> Inl e
      | Inr st1 \<Rightarrow>
          (case fetchPrices w opts order st1 of
             Inl e \<Rightarrow> Inl e
           | Inr st2 \<Rightarrow>
               if olderThanCutoff w cutoff (checkedOrder w opts order)
               then Inr (True, st2\<lparr>processedOrders := Suc (processedOrders st2)\<rparr>)
               else if filteredByType opts (checkedOrder w opts order)
               then Inr (reached, st2\<lparr>processedOrders := Suc (processedOrders st2)\<rparr>)
               else Inr (reached, st2\<lparr>orders := orders st2 @ [checkedOrder w opts order],
                                       processedOrders := Suc (processedOrders st2)\<rparr>)))"

text \<open>The loop over the orders of a page, from index \<open>i\<close> on.\<close>

fun processPageOrders ::
  "World \<Rightarrow> Options \<Rightarrow> int option \<Rightarrow> nat \<Rightarrow> nat \<Rightarrow> nat \<Rightarrow> Order list \<Rightarrow> bool \<Rightarrow> RunState
   \<Rightarrow> string + bool \<times> RunState" where
  "processPageOrders w opts cutoff pageNum len i [] reached st = Inr (reached, st)"
| "processPageOrders w opts cutoff pageNum len i (order # rest) reached st =
     (if \<not> isExporting w st then Inr (reached, st)
      else (case processOrder w opts cutoff pageNum len i order reached st of
              Inl e \<Rightarrow> Inl e
            | Inr (reached', st') \<Rightarrow>
                processPageOrders w opts cutoff pageNum len (Suc i) rest reached' st'))"

text \<open>
  The orders of the current page: those of the list page, or, when there are none, those
  fetched one by one from the order links of the page.
\<close>

definition collectPageOrders :: "World \<Rightarrow> nat \<Rightarrow> RunState \<Rightarrow> string + Order list \<times> RunState" where
  "collectPageOrders w pageNum st =
     (if extractOrderDataFromListPage (clock w) (pageAt w pageNum) = []
      then (case sendProgress w
                   (detailOnly ''Trying fallback method - fetching individual orders...'') st of
              Inl e \<Rightarrow> Inl e
            | Inr st1 \<Rightarrow> fetchLoop w (getOrderIdsFromPage (pageAt w pageNum)) [] st1)
      else Inr (extractOrderDataFromListPage (clock w) (pageAt w pageNum), st))"

text \<open>
  The end of the body of the \<open>while\<close> loop: whether the loop goes on with the next page,
  and the state.  \<open>goToNextPage\<close> finds the button that \<open>hasNextPage\<close> has just found.
\<close>

definition nextPageStep ::
  "World \<Rightarrow> Options \<Rightarrow> nat \<Rightarrow> bool \<Rightarrow> RunState \<Rightarrow> string + bool \<times> RunState" where
  "nextPageStep w opts pageNum reached st =
     (if allPages opts \<and> \<not> reached \<and> nextEnabled (pageAt w pageNum) \<and> isExporting w st
      then (case sendProgress w (detailOnly ''Moving to next page...'') st of
              Inl e \<Rightarrow> Inl e
            | Inr st1 \<Rightarrow>
                if nextEnabled (pageAt w pageNum) then Inr (True, awaitTick (awaitTick st1))
                else Inr (False, awaitTick st1))
      else Inr (False, st))"

text \<open>
  The body of the \<open>while\<close> loop for one page: whether the loop goes on, the value of
  \<open>reachedCutoff\<close> and the state, or the message of an exception.
\<close>

definition pageStep ::
  "World \<Rightarrow> Options \<Rightarrow> int option \<Rightarrow> nat \<Rightarrow> bool \<Rightarrow> RunState
   \<Rightarrow> string + bool \<times> bool \<times> RunState" where
  "pageStep w opts cutoff pageNum reached st =
     (case sendProgress w
             \<lparr>percent = None,
              label = Some (''Processing page '' @ digits pageNum @ ''...''),
              detail = Some ''Extracting order data from page...''\<rparr> st of
        Inl e \<Rightarrow> Inl e
      | Inr st1 \<Rightarrow>
          (case collectPageOrders w pageNum st1 of
             Inl e \<Rightarrow> Inl e
           | Inr (pageOrders, st2) \<Rightarrow>
               (case (if pageOrders = []
                      then sendProgress w (detailOnly ''No orders found on this page'') st2
                      else Inr st2) of
                  Inl e \<Rightarrow> Inl e
                | Inr st3 \<Rightarrow>
                    (case processPageOrders w opts cutoff pageNum (length pageOrders) 0
                            pageOrders reached st3 of
                       Inl e \<Rightarrow> Inl e
                     | Inr (reached', st4) \<Rightarrow>
                         (case nextPageStep w opts pageNum reached' st4 of
                            Inl e \<Rightarrow> Inl e
                          | Inr (goOn, st5) \<Rightarrow> Inr (goOn, reached', st5))))))"

text \<open>
  The \<open>while\<close> loop.  It may run forever (a next-page button that never gets disabled):
  \<open>None\<close> is the run that does not return.
\<close>

partial_function (option) pagesLoop ::
  "World \<Rightarrow> Options \<Rightarrow> int option \<Rightarrow> nat \<Rightarrow> bool \<Rightarrow> RunState \<Rightarrow> (string + RunState) option"
where
  "pagesLoop w opts cutoff pageNum reached st =
     (if isExporting w st \<and> \<not> reached
      then (case pageStep w opts cutoff pageNum reached st of
              Inl e \<Rightarrow> Some (Inl e)
            | Inr (goOn, reached', st') \<Rightarrow>
                if goOn then pagesLoop w opts cutoff (Suc pageNum) reached' st'
                else Some (Inr st'))
      else Some (Inr st))"

declare pagesLoop.simps [code]

definition initialState :: RunState where
  "initialState = \<lparr>orders = [], processedOrders = 0, ticks = 0, progressLog = [], netLog = []\<rparr>"

text \<open>
  The \<open>try\<close> block of \<open>exportOrders\<close> up to the CSV generation: the final state, or the
  message of the exception that left the block.
\<close>

definition exportRun :: "World \<Rightarrow> Options \<Rightarrow> (string + RunState) option" where
  "exportRun w opts =
     (case pagesLoop w opts (cutoffDate w opts) 1 False initialState of
        None \<Rightarrow> None
      | Some (Inl e) \<Rightarrow> Some (Inl e)
      | Some (Inr st) \<Rightarrow>
          Some (sendProgress w
                  \<lparr>percent = Some 100, label = Some ''Generating CSV...'',
                   detail = Some (''Processed '' @ digits (length (orders st)) @ '' orders'')\<rparr> st))"

text \<open>The object \<open>exportOrders\<close> returns; a property that is not set is \<open>None\<close>.\<close>

record ExportResult =
  success :: bool
  csv :: "string option"
  orderCount :: "nat option"
  itemCount :: "nat option"
  errorMessage :: "string option"

definition exportOrders :: "World \<Rightarrow> Options \<Rightarrow> ExportResult option" where
  "exportOrders w opts =
     (case exportRun w opts of
        None \<Rightarrow> None
      | Some (Inl e) \<Rightarrow>
          Some \<lparr>success = False, csv = None, orderCount = None, itemCount = None,
                errorMessage = Some e\<rparr>
      | Some (Inr st) \<Rightarrow>
          Some \<lparr>success = True,
                csv = Some (generateCSV (hostOf w) (orders st) (includeItems opts)),
                orderCount = Some (length (orders st)),
                itemCount = Some (sum_list (map (\<lambda>order. length (items order)) (orders st))),
                errorMessage = None\<rparr>)"

section \<open>Invariants of the extraction loops\<close>

text \<open>
  The state of a DOM, receipt or image loop is the item list and the \<open>seen\<close> set: the
  names pushed so far are pairwise different and all in \<open>seen\<close>.
\<close>

definition namesSeen :: "Item list \<times> string set \<Rightarrow> bool" where
  "namesSeen st = (distinct (map name (fst st)) \<and> set (map name (fst st)) \<subseteq> JStr ` snd st)"

text \<open>The same for the JSON loops, on the names that a \<open>Set\<close> compares by value.\<close>

definition primNames :: "Item list \<Rightarrow> jsval list" where
  "primNames acc = filter isPrimitive (map name acc)"

definition jsonSeen :: "Item list \<times> jsval set \<Rightarrow> bool" where
  "jsonSeen st = (distinct (primNames (fst st)) \<and> set (primNames (fst st)) \<subseteq> snd st)"

definition jsonOutcome :: "Item list + Item list \<times> jsval set \<Rightarrow> bool" where
  "jsonOutcome r = (case r of Inl acc \<Rightarrow> distinct (primNames acc) | Inr st \<Rightarrow> jsonSeen st)"

text \<open>A property of the item list, on the outcome of a loop that may raise.\<close>

definition itemsOutcome :: "(Item list \<Rightarrow> bool) \<Rightarrow> Item list + Item list \<times> 'a \<Rightarrow> bool" where
  "itemsOutcome Q r = (case r of Inl acc \<Rightarrow> Q acc | Inr st \<Rightarrow> Q (fst st))"





section \<open>Example inputs\<close>

text \<open>
  A host for the examples: the only number with decimals they meet is \<open>3.98\<close>.
\<close>

definition exHost :: host where
  "exHost = \<lparr>numFrac = (\<lambda>q. if q = 398 / 100 then ''3.98'' else []),
     toFixed2 = (\<lambda>q. if q = 398 / 100 then ''3.98'' else []),
     parseFloat_js = (\<lambda>s. if s = ''3.98'' then JNum (398 / 100) else JNaN),
     strToNumber = (\<lambda>s. if s = ''3.98'' then JNum (398 / 100) else JNaN)\<rparr>"

text \<open>A delivered online order of the list page, with no items found.\<close>

definition exOrder :: Order where
  "exOrder = \<lparr>orderId = ''123'', orderNumber = JStr ''123'', orderType = ''online'',
     orderDate = ''Unknown'', status = JStr ''Delivered'', items = [],
     subtotal = JStr [], tax = JStr [], total = JStr ''$45.67'', associateDiscount = JStr [],
     driverTip = JStr [], deliveryFee = JStr [], expressFee = JStr [],
     storeLocation = Some \<lparr>storeName = [], storeAddress = []\<rparr>, error = None\<rparr>"

text \<open>
  An order container of the list page, by the \<open>alt\<close> texts of its images: the same
  product twice, once with a quantity suffix, and an image that is not a product.
\<close>

definition exContainer :: "string list option" where
  "exContainer =
     Some [''Great Value Paper Towels, quantity 2'', ''Great Value Paper Towels'',
           ''Walmart logo image'', ''Fresh Bananas, each'']"



text \<open>
  An order page with the same product link twice; the second ancestor of each link
  holds the line price and the text with the quantity.
\<close>

definition exAncestors :: "AncestorView list" where
  "exAncestors =
     [\<lparr>linePriceText = None, innerText = ''Great Value Paper Towels''\<rparr>,
      \<lparr>linePriceText = Some ''$3.98'', innerText = ''Great Value Paper Towels Qty 3 $3.98''\<rparr>]"

definition exDoc :: DomDoc where
  "exDoc =
     \<lparr>productLinks = [\<lparr>linkText = ''Great Value Paper Towels'', ancestors = exAncestors\<rparr>,
                       \<lparr>linkText = '' Great Value Paper Towels '', ancestors = exAncestors\<rparr>],
      structLinks = [], textElems = []\<rparr>"


text \<open>The text of a receipt page: two lines for the same product, one with a quantity.\<close>

definition exReceiptText :: string where
  "exReceiptText =
     ''Great Value Paper Towels  $3.98 Qty 2'' @ [newline] @ ''Great Value Paper Towels  $3.98''"


text \<open>
  The embedded JSON of an order page: one group with the entry \<open>Paper Towels\<close> twice
  and the entry \<open>Bananas\<close>.
\<close>

definition exNextData :: jsval where
  "exNextData =
     JObj [(''props'', JObj [(''pageProps'', JObj [(''orderGroups'',
       JArr [JObj [(''items'',
         JArr [JObj [(''name'', JStr ''Paper Towels''), (''quantity'', JNum 2)],
               JObj [(''name'', JStr ''Paper Towels'')],
               JObj [(''name'', JStr ''Bananas'')]])]])])])]"



text \<open>
  A run over two list pages.  The first page shows the online order 111 (delivered on
  Jan 15, with one product image) in two containers and the store purchase 222; the
  second page shows the order 333, delivered on Dec 1.  The clock stands 100 days after
  its origin; Jan 15 is 10 days ago and Dec 1 is 40 days ago.
\<close>

definition exClock :: Clock where
  "exClock = \<lparr>todayText = ''Jan 25, 2024'', yearText = ''2024'', nowMs = 100 * 86400000\<rparr>"

definition exElem111 :: PageElem where
  "exElem111 =
     \<lparr>testid = ''order-0'', orderLinkHref = Some ''https://www.walmart.com/orders/111'',
      elemInnerText = ''Delivered on Jan 15 Order total $45.67'',
      elemImageAlts = [''Great Value Paper Towels, quantity 2'']\<rparr>"

definition exElem222 :: PageElem where
  "exElem222 =
     \<lparr>testid = ''order-1'',
      orderLinkHref = Some ''https://www.walmart.com/orders/222?storePurchase=true'',
      elemInnerText = ''Store purchase TC# 123-456'', elemImageAlts = []\<rparr>"

definition exElem111Again :: PageElem where
  "exElem111Again =
     \<lparr>testid = ''order-2'', orderLinkHref = Some ''https://www.walmart.com/orders/111'',
      elemInnerText = ''Preparing'', elemImageAlts = []\<rparr>"

definition exElem333 :: PageElem where
  "exElem333 =
     \<lparr>testid = ''order-0'', orderLinkHref = Some ''https://www.walmart.com/orders/333'',
      elemInnerText = ''Delivered on Dec 1 Order total $9.99'', elemImageAlts = []\<rparr>"

definition exPage1 :: ListPage where
  "exPage1 = \<lparr>testidElems = [exElem111, exElem222, exElem111Again], returnLinks = [],
               orderLinks = [], nextEnabled = True\<rparr>"

definition exPage2 :: ListPage where
  "exPage2 = \<lparr>testidElems = [exElem333], returnLinks = [], orderLinks = [],
               nextEnabled = False\<rparr>"

text \<open>A page with no order container and no return link, only two links to the order 444.\<close>

definition exLinksPage :: ListPage where
  "exLinksPage =
     \<lparr>testidElems = [], returnLinks = [],
      orderLinks = [''https://www.walmart.com/orders/444'',
                    ''https://www.walmart.com/orders/555'',
                    ''https://www.walmart.com/orders/444?storePurchase=true''],
      nextEnabled = False\<rparr>"

definition exParseDate :: "string \<Rightarrow> int option" where
  "exParseDate s =
     (if s = ''Jan 15, 2024'' then Some (90 * 86400000)
      else if s = ''Dec 1, 2024'' then Some (60 * 86400000)
      else None)"

text \<open>
  The worlds of the examples: no API data, every HTML request fails with a network
  error but the one for order 555, whose page the online parser reads; no detail data.
\<close>

definition exOrder555 :: Order where
  "exOrder555 = exOrder\<lparr>orderId := ''555'', orderNumber := JStr ''555'', items :=
     [\<lparr>name = JStr ''Fresh Bananas'', quantity = JNum 1, price = JStr ''$3.98'',
       priceValue = JNum (398 / 100)\<rparr>]\<rparr>"

definition exHtmlFetch :: "string \<Rightarrow> HtmlOutcome" where
  "exHtmlFetch url =
     (if url = ''https://www.walmart.com/orders/555''
      then HtmlPage \<lparr>hasTransactionCode = False, storeParse = Inl ''no main element'',
                     onlineParse = Inr exOrder555\<rparr>
      else NetworkError ''Failed to fetch'')"

definition exWorld :: "(nat \<Rightarrow> ListPage) \<Rightarrow> (nat \<Rightarrow> string option) \<Rightarrow> World" where
  "exWorld pages throws =
     \<lparr>hostOf = exHost, clock = exClock, parseDate = exParseDate, localeDate = (\<lambda>v. None),
      pageAt = pages, apiData = (\<lambda>oid. JNull), parseJSON = (\<lambda>v oid. Inl ''no data''),
      htmlFetch = exHtmlFetch, detailData = (\<lambda>url. None), orderMetaOf = (\<lambda>v. None),
      sendThrows = throws, stopAfter = None\<rparr>"

text \<open>The list pages 1 and 2 in this order; every later page is as page 2.\<close>

definition exPages :: "nat \<Rightarrow> ListPage" where
  "exPages n = (if n = 1 then exPage1 else exPage2)"

text \<open>The first list page again after the navigation: the document has not changed.\<close>

definition exStalePages :: "nat \<Rightarrow> ListPage" where
  "exStalePages n = (if n = 1 then exPage1 else exPage1\<lparr>nextEnabled := False\<rparr>)"

definition exOptions :: Options where
  "exOptions = \<lparr>includeItems = True, allPages = True, dateRange = Days 30,
                 orderTypeFilter = ''all'', fetchItemPrices = False\<rparr>"

text \<open>The two order links of \<open>exLinksPage\<close>, as \<open>getOrderIdsFromPage\<close> returns them.\<close>

definition exInfo444 :: OrderInfo where
  "exInfo444 = \<lparr>infoOrderId = ''444'',
                 infoUrl = ''https://www.walmart.com/orders/444?storePurchase=true'',
                 infoIsStore = True\<rparr>"

definition exInfo555 :: OrderInfo where
  "exInfo555 = \<lparr>infoOrderId = ''555'', infoUrl = ''https://www.walmart.com/orders/555'',
                 infoIsStore = False\<rparr>"

text \<open>No call of \<open>sendMessage\<close> raises; the third call raises.\<close>

definition exQuiet :: "nat \<Rightarrow> string option" where
  "exQuiet k = None"

definition exThirdThrows :: "nat \<Rightarrow> string option" where
  "exThirdThrows k = (if k = 2 then Some ''Extension context invalidated.'' else None)"

text \<open>The orders the list pages give for the containers of the orders 111 and 333.\<close>

definition exOrder111 :: Order where
  "exOrder111 = containerOrder exClock ''111'' exElem111"

definition exOrder333 :: Order where
  "exOrder333 = containerOrder exClock ''333'' exElem333"

section \<open>Properties of the CSV serialiser\<close>

lemma collapseQuotes_cons: "c \<noteq> dquote \<Longrightarrow> collapseQuotes (c # xs) = c # collapseQuotes xs"
  by (cases xs) simp_all

lemma collapseQuotes_doubleQuotes: "collapseQuotes (doubleQuotes s) = s"
  by (induction s) (simp_all add: doubleQuotes_def collapseQuotes_cons)

lemma length_doubleQuotes: "length s \<le> length (doubleQuotes s)"
  by (induction s) (simp_all add: doubleQuotes_def)

text \<open>
  Claim C2.  For every string \<open>s\<close>, \<open>escapeCSV\<close> returns \<open>s\<close> wrapped in double quotes
  with every double quote of \<open>s\<close> doubled if and only if \<open>s\<close> contains a comma, a double
  quote or a newline, and returns \<open>s\<close> unchanged otherwise; and for every \<open>s\<close> that
  contains one of the three, reading the escaped field back (outer quotes stripped,
  doubled quotes collapsed) gives \<open>s\<close>.
\<close>

theorem escapeCSV_quoting_roundtrip:
  "escapeCSV h (JStr s) =
     (if CHR '','' \<in> set s \<or> dquote \<in> set s \<or> newline \<in> set s
      then [dquote] @ doubleQuotes s @ [dquote] else s)
   \<and> (escapeCSV h (JStr s) = [dquote] @ doubleQuotes s @ [dquote]
        \<longleftrightarrow> CHR '','' \<in> set s \<or> dquote \<in> set s \<or> newline \<in> set s)
   \<and> (CHR '','' \<in> set s \<or> dquote \<in> set s \<or> newline \<in> set s
        \<longrightarrow> parseField (escapeCSV h (JStr s)) = s)"
proof -
  have ne: "s \<noteq> [dquote] @ doubleQuotes s @ [dquote]"
  proof
    assume "s = [dquote] @ doubleQuotes s @ [dquote]"
    then have "length s = length ([dquote] @ doubleQuotes s @ [dquote])" by simp
    with length_doubleQuotes [of s] show False by simp
  qed
  have rt: "parseField ([dquote] @ doubleQuotes s @ [dquote]) = s"
    by (simp add: parseField_def collapseQuotes_doubleQuotes butlast_append)
  show ?thesis
    using ne rt by (auto simp: escapeCSV_def needsQuoting_def Let_def)
qed

theorem escapeCSV_quoting_roundtrip_witness:
  "(CHR '','' \<in> set ''a,\"b'' \<or> dquote \<in> set ''a,\"b'' \<or> newline \<in> set ''a,\"b'')
   \<and> escapeCSV exHost (JStr ''a,\"b'') = ''\"a,\"\"b\"''
   \<and> parseField (escapeCSV exHost (JStr ''a,\"b'')) = ''a,\"b''"
  using escapeCSV_quoting_roundtrip [of exHost "''a,\"b''"]
  by (auto simp: dquote_def newline_def doubleQuotes_def)





section \<open>Properties of the item extractors\<close>

lemma foldl_invariant:
  assumes "P st" and "\<And>x s. P s \<Longrightarrow> P (f x s)"
  shows "P (foldl (\<lambda>s x. f x s) st xs)"
  using assms(1) by (induction xs arbitrary: st) (simp_all add: assms(2))

lemma namesSeen_init: "namesSeen ([], {})"
  by (simp add: namesSeen_def)

lemma namesSeen_push:
  assumes "namesSeen (acc, seen)" and "nm \<notin> seen" and "name it = JStr nm"
  shows "namesSeen (acc @ [it], insert nm seen)"
  using assms by (auto simp: namesSeen_def)

lemma strategy1Step_namesSeen: "namesSeen st \<Longrightarrow> namesSeen (strategy1Step h link st)"
  by (cases st) (auto simp: strategy1Step_def Let_def mkItem_def split: prod.splits
      intro!: namesSeen_push)

lemma strategy2Step_namesSeen: "namesSeen st \<Longrightarrow> namesSeen (strategy2Step h link st)"
  by (cases st) (auto simp: strategy2Step_def Let_def mkItem_def split: prod.splits option.splits
      intro!: namesSeen_push)

lemma strategy3Step_namesSeen: "namesSeen st \<Longrightarrow> namesSeen (strategy3Step h el st)"
  by (cases st) (auto simp: strategy3Step_def Let_def split: prod.splits option.splits
      intro!: namesSeen_push)

lemma receiptLinkStep_namesSeen: "namesSeen st \<Longrightarrow> namesSeen (receiptLinkStep h link st)"
  by (cases st) (auto simp: receiptLinkStep_def Let_def mkItem_def split: prod.splits
      intro!: namesSeen_push)

lemma receiptLineStep_namesSeen: "namesSeen st \<Longrightarrow> namesSeen (receiptLineStep h line st)"
  by (cases st) (auto simp: receiptLineStep_def Let_def split: prod.splits option.splits
      intro!: namesSeen_push)

lemma imageStep_namesSeen: "namesSeen st \<Longrightarrow> namesSeen (imageStep alt st)"
  by (cases st) (auto simp: imageStep_def Let_def split: prod.splits option.splits
      intro!: namesSeen_push)

lemma extractItemsFromDOM_namesSeen:
  "\<exists>seen. namesSeen (extractItemsFromDOM h doc, seen)"
proof -
  define st1 where "st1 = foldl (\<lambda>st link. strategy1Step h link st) ([], {}) (productLinks doc)"
  define st2 where "st2 = (if fst st1 = []
     then foldl (\<lambda>st link. strategy2Step h link st) st1 (structLinks doc) else st1)"
  define st3 where "st3 = (if fst st2 = []
     then foldl (\<lambda>st el. strategy3Step h el st) st2 (textElems doc) else st2)"
  have 1: "namesSeen st1"
    unfolding st1_def
    by (rule foldl_invariant [where P = namesSeen]) (simp_all add: namesSeen_init strategy1Step_namesSeen)
  have 2: "namesSeen st2"
    unfolding st2_def using 1
    by (simp add: foldl_invariant [where P = namesSeen] strategy2Step_namesSeen)
  have 3: "namesSeen st3"
    unfolding st3_def using 2
    by (simp add: foldl_invariant [where P = namesSeen] strategy3Step_namesSeen)
  have "extractItemsFromDOM h doc = fst st3"
    by (simp add: extractItemsFromDOM_def st1_def st2_def st3_def Let_def)
  with 3 show ?thesis by (metis prod.collapse)
qed

lemma extractItemsFromReceipt_namesSeen:
  "\<exists>seen. namesSeen (extractItemsFromReceipt h links pageText, seen)"
proof -
  define st1 where "st1 = foldl (\<lambda>st link. receiptLinkStep h link st) ([], {}) links"
  define st2 where "st2 = (if fst st1 = []
     then foldl (\<lambda>st line. receiptLineStep h line st) st1 (splitLines pageText) else st1)"
  have 1: "namesSeen st1"
    unfolding st1_def
    by (rule foldl_invariant [where P = namesSeen]) (simp_all add: namesSeen_init receiptLinkStep_namesSeen)
  have 2: "namesSeen st2"
    unfolding st2_def using 1
    by (simp add: foldl_invariant [where P = namesSeen] receiptLineStep_namesSeen)
  have "extractItemsFromReceipt h links pageText = fst st2"
    by (simp add: extractItemsFromReceipt_def st1_def st2_def Let_def)
  with 2 show ?thesis by (metis prod.collapse)
qed

lemma extractItemsFromOrderContainer_namesSeen:
  "\<exists>seen. namesSeen (extractItemsFromOrderContainer container, seen)"
proof (cases container)
  case None
  then show ?thesis
    using namesSeen_init by (auto simp: extractItemsFromOrderContainer_def)
next
  case (Some alts)
  have "namesSeen (foldl (\<lambda>st alt. imageStep alt st) ([], {}) alts)"
    by (rule foldl_invariant [where P = namesSeen]) (simp_all add: namesSeen_init imageStep_namesSeen)
  with Some show ?thesis
    by (simp add: extractItemsFromOrderContainer_def) (metis prod.collapse)
qed

lemma jsonOutcome_simps [simp]:
  "jsonOutcome (Inl acc) = distinct (primNames acc)"
  "jsonOutcome (Inr st) = jsonSeen st"
  by (simp_all add: jsonOutcome_def)

lemma jsonSeen_distinct: "jsonSeen st \<Longrightarrow> distinct (primNames (fst st))"
  by (simp add: jsonSeen_def)

lemma jsonSeen_push:
  assumes "jsonSeen (acc, seen)" and "\<not> seenHas seen nm" and "name it = nm"
  shows "jsonSeen (acc @ [it], insert nm seen)" and "distinct (primNames (acc @ [it]))"
  using assms by (auto simp: jsonSeen_def primNames_def seenHas_def)

lemma groupItemStep_outcome: "jsonSeen st \<Longrightarrow> jsonOutcome (groupItemStep h lineItem st)"
  by (cases st)
    (auto simp: groupItemStep_def Let_def jsonSeen_push
      split: option.splits prod.splits dest: jsonSeen_distinct)

lemma directItemStep_outcome: "jsonSeen st \<Longrightarrow> jsonOutcome (directItemStep h it st)"
  by (cases st)
    (auto simp: directItemStep_def Let_def jsonSeen_push
      split: option.splits prod.splits dest: jsonSeen_distinct)

lemma foldExc_outcome:
  assumes "jsonSeen st" and "\<And>x s. jsonSeen s \<Longrightarrow> jsonOutcome (f x s)"
  shows "jsonOutcome (foldExc f xs st)"
  using assms(1)
proof (induction xs arbitrary: st)
  case Nil
  then show ?case by simp
next
  case (Cons x xs)
  from assms(2) [OF Cons.prems, of x] Cons.IH show ?case
    by (cases "f x st") simp_all
qed

lemma groupStep_outcome: "jsonSeen st \<Longrightarrow> jsonOutcome (groupStep h grp st)"
  by (auto simp: groupStep_def split: option.splits
      intro: foldExc_outcome groupItemStep_outcome dest: jsonSeen_distinct)

lemma groupPathsLoop_outcome: "jsonSeen st \<Longrightarrow> jsonOutcome (groupPathsLoop h ps st)"
proof (induction ps arbitrary: st)
  case Nil
  then show ?case by simp
next
  case (Cons p ps)
  show ?case
  proof (cases p)
    case (JArr groups)
    have "jsonOutcome (foldExc (groupStep h) groups st)"
      using Cons.prems by (rule foldExc_outcome) (rule groupStep_outcome)
    then show ?thesis
      using JArr Cons.IH by (cases "foldExc (groupStep h) groups st") simp_all
  qed (use Cons in simp_all)
qed

lemma directItems_outcome: "jsonSeen st \<Longrightarrow> jsonOutcome (directItems h pageProps st)"
  by (auto simp: directItems_def split: option.splits
      intro: foldExc_outcome directItemStep_outcome dest: jsonSeen_distinct)

lemma extractItemsFromNextData_distinct:
  "distinct (primNames (extractItemsFromNextData h nextData))"
proof -
  define pp where "pp = path [''props'', ''pageProps''] nextData"
  have init: "jsonSeen ([], {})" by (simp add: jsonSeen_def primNames_def)
  have nil: "distinct (primNames [])" by (simp add: primNames_def)
  have 1: "jsonOutcome (groupPathsLoop h (possibleGroupPaths pp) ([], {}))"
    by (rule groupPathsLoop_outcome [OF init])
  show ?thesis
  proof (cases "groupPathsLoop h (possibleGroupPaths pp) ([], {})")
    case (Inl acc)
    with 1 nil show ?thesis
      by (simp add: extractItemsFromNextData_def Let_def pp_def [symmetric])
  next
    case (Inr st)
    with 1 have "jsonSeen st" by simp
    then have 2: "jsonOutcome (directItems h pp st)" by (rule directItems_outcome)
    then show ?thesis
      using Inr nil
      by (cases "directItems h pp st")
        (simp_all add: extractItemsFromNextData_def Let_def pp_def [symmetric] jsonSeen_distinct)
  qed
qed
























lemma itemsOutcome_simps [simp]:
  "itemsOutcome Q (Inl acc) = Q acc"
  "itemsOutcome Q (Inr st) = Q (fst st)"
  by (simp_all add: itemsOutcome_def)





















text \<open>
  Claim C4.  One pass of an item extractor never returns two items with the same name:
  the names returned by the DOM extractor (whichever of its three strategies produced
  them), by the receipt extractor and by the image extractor are pairwise different
  strings, and so are the names returned by the structured-data extractor that are
  strings (or other primitive values).
\<close>

theorem extracted_item_names_distinct:
  "distinct (map name (extractItemsFromDOM h doc))
   \<and> distinct (map name (extractItemsFromReceipt h links pageText))
   \<and> distinct (map name (extractItemsFromOrderContainer container))
   \<and> distinct (filter isPrimitive (map name (extractItemsFromNextData h nextData)))"
  using extractItemsFromDOM_namesSeen [of h doc]
    extractItemsFromReceipt_namesSeen [of h links pageText]
    extractItemsFromOrderContainer_namesSeen [of container]
    extractItemsFromNextData_distinct [of h nextData]
  by (auto simp: namesSeen_def primNames_def)

theorem extracted_item_names_distinct_witness:
  "map name (extractItemsFromDOM exHost exDoc) = [JStr ''Great Value Paper Towels'']
   \<and> map name (extractItemsFromReceipt exHost [] exReceiptText) = [JStr ''Great Value Paper Towels'']
   \<and> map name (extractItemsFromOrderContainer exContainer) =
       [JStr ''Great Value Paper Towels'', JStr ''Fresh Bananas, each'']
   \<and> map name (extractItemsFromNextData exHost exNextData) = [JStr ''Paper Towels'', JStr ''Bananas'']
   \<and> distinct (map name (extractItemsFromDOM exHost exDoc))
   \<and> distinct (map name (extractItemsFromReceipt exHost [] exReceiptText))
   \<and> distinct (map name (extractItemsFromOrderContainer exContainer))
   \<and> distinct (filter isPrimitive (map name (extractItemsFromNextData exHost exNextData)))"
proof -
  have 1: "map name (extractItemsFromDOM exHost exDoc) = [JStr ''Great Value Paper Towels'']"
    by code_simp
  have 2: "map name (extractItemsFromReceipt exHost [] exReceiptText) = [JStr ''Great Value Paper Towels'']"
    by code_simp
  have 3: "map name (extractItemsFromOrderContainer exContainer) =
       [JStr ''Great Value Paper Towels'', JStr ''Fresh Bananas, each'']"
    by code_simp
  have 4: "map name (extractItemsFromNextData exHost exNextData) = [JStr ''Paper Towels'', JStr ''Bananas'']"
    by code_simp
  show ?thesis
    using extracted_item_names_distinct [of exHost exDoc "[]" exReceiptText exContainer exNextData]
      1 2 3 4
    by blast
qed




section \<open>Properties of the fetch and of the export run\<close>

lemma orderHead_first:
  "orderHeadFields h order ! 0 = escapeCSV h (jsor (orderNumber order) (JStr (orderId order)))"
  by (simp add: orderHeadFields_def)


lemma orderId_fetchOrderDetails [simp]: "orderId (fetchOrderDetails w info) = infoOrderId info"
  by (auto simp: fetchOrderDetails_def fetchOrderDetailsTry_def errorOrder_def map_sum_def
      split: sum.splits HtmlOutcome.splits)

lemma sendProgress_quiet:
  "\<forall>k. sendThrows w k = None \<Longrightarrow> sendProgress w ev st = Inr (st\<lparr>progressLog := progressLog st @ [ev]\<rparr>)"
  by (simp add: sendProgress_def)

lemma isExporting_never_stopped [simp]: "stopAfter w = None \<Longrightarrow> isExporting w st"
  by (simp add: isExporting_def)

lemma fetchLoop_all:
  assumes "stopAfter w = None" and "\<forall>k. sendThrows w k = None"
  shows "\<exists>st'. fetchLoop w infos acc st =
           Inr (acc @ filter (\<lambda>order. orderId order \<noteq> []) (map (fetchOrderDetails w) infos), st')"
proof (induction infos arbitrary: acc st)
  case Nil
  then show ?case by simp
next
  case (Cons info infos)
  show ?case
  proof (cases "orderId (fetchOrderDetails w info) \<noteq> []")
    case True
    then show ?thesis
      using assms Cons.IH [of "acc @ [fetchOrderDetails w info]"]
      by (simp add: sendProgress_quiet del: orderId_fetchOrderDetails)
  next
    case False
    then show ?thesis
      using assms Cons.IH [of acc]
      by (simp add: sendProgress_quiet del: orderId_fetchOrderDetails)
  qed
qed

text \<open>
  Claim C6.  When the \<open>try\<close> of \<open>fetchOrderDetails\<close> raises with a message (the HTML
  request fails, the response is not \<open>ok\<close>, a page parser or the JSON parser raises),
  \<open>fetchOrderDetails\<close> returns the record with the status \<open>Error fetching\<close>, no items
  and that message as \<open>error\<close>; and the loop that calls it goes through all the order
  links whatever the fetches give: with no stop request and no exception of
  \<open>sendProgress\<close> it collects the records of all of them.
\<close>

theorem fetch_failure_is_recorded:
  "(fetchOrderDetailsTry w info = Inl msg \<longrightarrow>
      fetchOrderDetails w info = errorOrder (infoOrderId info) (infoIsStore info) msg
      \<and> orderId (fetchOrderDetails w info) = infoOrderId info
      \<and> status (fetchOrderDetails w info) = JStr ''Error fetching''
      \<and> items (fetchOrderDetails w info) = []
      \<and> error (fetchOrderDetails w info) = Some msg)
   \<and> (\<not> apiUsable (apiData w (infoOrderId info))
        \<and> htmlFetch w (orderUrlOf info) = NetworkError msg
      \<longrightarrow> fetchOrderDetailsTry w info = Inl msg)
   \<and> (\<not> apiUsable (apiData w (infoOrderId info))
        \<and> htmlFetch w (orderUrlOf info) = HttpError code
      \<longrightarrow> fetchOrderDetailsTry w info = Inl (''HTTP '' @ digits code))
   \<and> (\<not> apiUsable (apiData w (infoOrderId info))
        \<and> htmlFetch w (orderUrlOf info) = HtmlPage doc \<and> pageParse info doc = Inl msg
      \<longrightarrow> fetchOrderDetailsTry w info = Inl msg)
   \<and> (apiUsable (apiData w (infoOrderId info))
        \<and> parseJSON w (jsor (getProp ''orderDetails'' (apiData w (infoOrderId info)))
                         (apiData w (infoOrderId info))) (infoOrderId info) = Inl msg
      \<longrightarrow> fetchOrderDetailsTry w info = Inl msg)
   \<and> (stopAfter w = None \<and> (\<forall>k. sendThrows w k = None) \<longrightarrow>
        (\<exists>st'. fetchLoop w infos acc st =
           Inr (acc @ filter (\<lambda>order. orderId order \<noteq> []) (map (fetchOrderDetails w) infos), st')))"
  using fetchLoop_all [of w infos acc st]
  by (auto simp: fetchOrderDetails_def fetchOrderDetailsTry_def errorOrder_def)

text \<open>
  Claim C7.  When an exception leaves the loop (or the \<open>try\<close> block after it) with a
  message, \<open>exportOrders\<close> returns \<open>success: false\<close> with that message and neither
  \<open>csv\<close> nor a count: the orders accumulated before the exception are not in the
  result.  A result that is not a success is always of this form.
\<close>

theorem run_failure_discards_orders:
  "(pagesLoop w opts (cutoffDate w opts) 1 False initialState = Some (Inl msg)
      \<longrightarrow> exportRun w opts = Some (Inl msg))
   \<and> (exportRun w opts = Some (Inl msg)
      \<longrightarrow> exportOrders w opts =
            Some \<lparr>success = False, csv = None, orderCount = None, itemCount = None,
                  errorMessage = Some msg\<rparr>)
   \<and> (exportOrders w opts = Some r \<and> \<not> success r
      \<longrightarrow> csv r = None \<and> orderCount r = None \<and> itemCount r = None
          \<and> (\<exists>m. errorMessage r = Some m \<and> exportRun w opts = Some (Inl m)))
   \<and> (exportOrders w opts = Some r \<and> success r
      \<longrightarrow> (\<exists>st. exportRun w opts = Some (Inr st)))"
  by (auto simp: exportOrders_def exportRun_def split: option.splits sum.splits)



theorem fetch_failure_is_recorded_witness:
  "fetchOrderDetailsTry (exWorld exPages exQuiet) exInfo444 = Inl ''Failed to fetch''
   \<and> fetchOrderDetails (exWorld exPages exQuiet) exInfo444 = errorOrder ''444'' True ''Failed to fetch''
   \<and> status (fetchOrderDetails (exWorld exPages exQuiet) exInfo444) = JStr ''Error fetching''
   \<and> map_sum id fst (fetchLoop (exWorld exPages exQuiet) [exInfo444, exInfo555] [] initialState) =
       Inr [errorOrder ''444'' True ''Failed to fetch'', exOrder555]"
proof -
  have 1: "fetchOrderDetailsTry (exWorld exPages exQuiet) exInfo444 = Inl ''Failed to fetch''"
    by code_simp
  have 2: "\<not> apiUsable (apiData (exWorld exPages exQuiet) (infoOrderId exInfo444))"
    by code_simp
  have 3: "htmlFetch (exWorld exPages exQuiet) (orderUrlOf exInfo444) = NetworkError ''Failed to fetch''"
    by code_simp
  have 4: "stopAfter (exWorld exPages exQuiet) = None" "\<forall>k. sendThrows (exWorld exPages exQuiet) k = None"
    by (simp_all add: exWorld_def exQuiet_def)
  have 5: "fetchOrderDetails (exWorld exPages exQuiet) exInfo555 = exOrder555"
    by code_simp
  note inst = fetch_failure_is_recorded [of "exWorld exPages exQuiet" exInfo444 "''Failed to fetch''"
      0 undefined "[exInfo444, exInfo555]" "[]" initialState]
  have 6: "fetchOrderDetails (exWorld exPages exQuiet) exInfo444 = errorOrder ''444'' True ''Failed to fetch''"
    using inst 1 by (simp add: exInfo444_def)
  have 7: "orderId exOrder555 \<noteq> []" "orderId (errorOrder ''444'' True ''Failed to fetch'') \<noteq> []"
    by (simp_all add: exOrder555_def errorOrder_def)
  from inst 4 obtain st' where
    "fetchLoop (exWorld exPages exQuiet) [exInfo444, exInfo555] [] initialState =
       Inr ([] @ filter (\<lambda>order. orderId order \<noteq> [])
                   (map (fetchOrderDetails (exWorld exPages exQuiet)) [exInfo444, exInfo555]), st')"
    by blast
  then have 8: "map_sum id fst (fetchLoop (exWorld exPages exQuiet) [exInfo444, exInfo555] [] initialState) =
       Inr [errorOrder ''444'' True ''Failed to fetch'', exOrder555]"
    using 5 6 7 by simp
  show ?thesis
    using inst 1 6 8 by (simp add: errorOrder_def)
qed

theorem run_failure_discards_orders_witness:
  "exportRun (exWorld exPages exThirdThrows) exOptions = Some (Inl ''Extension context invalidated.'')
   \<and> exportOrders (exWorld exPages exThirdThrows) exOptions =
       Some \<lparr>success = False, csv = None, orderCount = None, itemCount = None,
             errorMessage = Some ''Extension context invalidated.''\<rparr>
   \<and> map_option orderCount (exportOrders (exWorld exPages exQuiet) exOptions) = Some (Some 2)"
proof -
  have 1: "exportRun (exWorld exPages exThirdThrows) exOptions = Some (Inl ''Extension context invalidated.'')"
    by code_simp
  have 2: "map_option orderCount (exportOrders (exWorld exPages exQuiet) exOptions) = Some (Some 2)"
    by code_simp
  show ?thesis
    using run_failure_discards_orders [of "exWorld exPages exThirdThrows" exOptions
        "''Extension context invalidated.''" undefined] 1 2
    by simp
qed

end
